theory Spec2Isabelle
  imports Complex_Main "HOL-Library.AList"
begin

section \<open>The libFuzzer engine of ClusterFuzz\<close>

text \<open>
  A shallow embedding of \<^verbatim>\<open>src/clusterfuzz/_internal/bot/fuzzers/libFuzzer/engine.py\<close>.
  Exceptions are values of the type \<open>error\<close>, every method takes the state of the
  engine and of the machine and returns the new one, and the collaborators the engine
  calls (the runner, the log parsers, the strategy selection) are the fields of a record
  of functions, so that every theorem holds for all of them.
\<close>

subsection \<open>Python values\<close>

datatype error =
    MergeError
  | TimeoutError
  | KeyError string
  | ZeroDivisionError
  | ValueError
  | IsADirectoryError

text \<open>\<^verbatim>\<open>os.path.join(a, b)\<close> of posixpath.\<close>

definition os_path_join :: "string \<Rightarrow> string \<Rightarrow> string" where
  "os_path_join a b =
     (if b \<noteq> [] \<and> hd b = CHR ''/'' then b
      else if a = [] \<or> last a = CHR ''/'' then a @ b
      else a @ ''/'' @ b)"

text \<open>\<^verbatim>\<open>s.startswith(p)\<close> and \<^verbatim>\<open>sub in s\<close>.\<close>

fun startswith :: "string \<Rightarrow> string \<Rightarrow> bool" where
  "startswith s [] = True"
| "startswith [] (p # ps) = False"
| "startswith (c # cs) (p # ps) = (c = p \<and> startswith cs ps)"

fun contains :: "string \<Rightarrow> string \<Rightarrow> bool" where
  "contains [] sub = (sub = [])"
| "contains (c # cs) sub = (startswith (c # cs) sub \<or> contains cs sub)"

text \<open>
  \<^verbatim>\<open>str.splitlines()\<close>: the line boundaries are \<^verbatim>\<open>\n\<close>, \<^verbatim>\<open>\r\<close>, \<^verbatim>\<open>\r\n\<close>,
  \<^verbatim>\<open>\v\<close>, \<^verbatim>\<open>\f\<close>, \<^verbatim>\<open>\x1c\<close>, \<^verbatim>\<open>\x1d\<close>, \<^verbatim>\<open>\x1e\<close> and \<^verbatim>\<open>\x85\<close>; a string is a
  list of code points below 256 here, so the separators U+2028 and U+2029 do not occur.
\<close>

definition is_linebreak :: "char \<Rightarrow> bool" where
  "is_linebreak c \<longleftrightarrow>
     c \<in> {CHR 0x0A, CHR 0x0D, CHR 0x0B, CHR 0x0C, CHR 0x1C, CHR 0x1D, CHR 0x1E, CHR 0x85}"

fun splitlines_from :: "string \<Rightarrow> string \<Rightarrow> string list" where
  "splitlines_from cur [] = (if cur = [] then [] else [cur])"
| "splitlines_from cur [c] =
     (if is_linebreak c then [cur] else [cur @ [c]])"
| "splitlines_from cur (c # d # cs) =
     (if c = CHR 0x0D \<and> d = CHR 0x0A then cur # splitlines_from [] cs
      else if is_linebreak c then cur # splitlines_from [] (d # cs)
      else splitlines_from (cur @ [c]) (d # cs))"

definition splitlines :: "string \<Rightarrow> string list" where
  "splitlines s = splitlines_from [] s"

text \<open>\<^verbatim>\<open>'\n'.join(lines)\<close>.\<close>

fun join_lines :: "string list \<Rightarrow> string" where
  "join_lines [] = []"
| "join_lines [l] = l"
| "join_lines (l # m # ls) = l @ [CHR 0x0A] @ join_lines (m # ls)"

text \<open>
  \<^verbatim>\<open>int(x)\<close> of a float truncates towards zero. Durations are Python floats; they are
  modelled as reals, so rounding, infinities and NaN are outside the model.
\<close>

definition py_int :: "real \<Rightarrow> int" where
  "py_int x = (if 0 \<le> x then \<lfloor>x\<rfloor> else \<lceil>x\<rceil>)"

text \<open>The values a statistic takes in \<^verbatim>\<open>FuzzResult.stats\<close>.\<close>

datatype stat_value = PyNone | PyInt int | PyFloat real

subsection \<open>The machine\<close>

text \<open>
  The world outside the engine: a file system, the process environment, and the rest
  (clock, processes) that a run of the fuzz target may read and change. A path names a
  regular file with its bytes or a directory with the names of the files in it.
\<close>

datatype node = File string | Dir "string list"

record world =
  fs :: "string \<rightharpoonup> node"
  environ :: "string \<rightharpoonup> string"
  outside :: nat

text \<open>The result of a process run by the runner (\<^verbatim>\<open>new_process.ProcessResult\<close>).\<close>

record run_result =
  command :: "string list"
  output_text :: string
  return_code :: int
  time_executed :: real
  timed_out :: bool

text \<open>The arguments of one call of \<^verbatim>\<open>runner.merge\<close>.\<close>

record merge_call =
  mc_corpus_directories :: "string list"
  mc_merge_timeout :: real
  mc_tmp_dir :: string
  mc_additional_args :: "string list"
  mc_artifact_prefix :: "string option"
  mc_merge_control_file :: "string option"

text \<open>The arguments of one call of \<^verbatim>\<open>runner.fuzz\<close>.\<close>

record fuzz_call =
  fc_corpus_directories :: "string list"
  fc_fuzz_timeout :: real
  fc_additional_args :: "string list"
  fc_artifact_prefix :: string
  fc_extra_env :: "string \<rightharpoonup> string"

text \<open>
  \<^verbatim>\<open>engine.Crash(input_path, stacktrace, reproduce_args, crash_time)\<close> and
  \<^verbatim>\<open>engine.FuzzResult(logs, command, crashes, stats, time_executed, timed_out=None)\<close>,
  as the engine constructs them. The statistics of a merge are integers, those of a fuzz
  run are \<open>stat_value\<close>s.
\<close>

record Crash =
  crash_input_path :: string
  crash_logs :: string
  crash_reproduce_arguments :: "string list"
  crash_duration :: int

record 'v FuzzResult =
  fr_logs :: string
  fr_command :: "string list"
  fr_crashes :: "Crash list"
  fr_stats :: "string \<rightharpoonup> 'v"
  fr_time_executed :: real
  fr_timed_out :: "bool option"

datatype log_level = Info | Warning | Error

text \<open>
  The state: the world, the attribute \<^verbatim>\<open>self._merge_control_file\<close> of the engine, the
  calls of \<^verbatim>\<open>runner.merge\<close> made so far (in order), and the records written by
  \<^verbatim>\<open>logs.info\<close>, \<^verbatim>\<open>logs.warning\<close> and \<^verbatim>\<open>logs.error\<close> (level and message; the values
  formatted into a message are left out).
\<close>

record state =
  world :: world
  merge_control_file :: "string option"
  merge_calls :: "merge_call list"
  logged :: "(log_level \<times> string) list"

definition logs_info :: "string \<Rightarrow> state \<Rightarrow> state" where
  "logs_info msg s = s\<lparr>logged := logged s @ [(Info, msg)]\<rparr>"

definition logs_warning :: "string \<Rightarrow> state \<Rightarrow> state" where
  "logs_warning msg s = s\<lparr>logged := logged s @ [(Warning, msg)]\<rparr>"

definition logs_error :: "string \<Rightarrow> state \<Rightarrow> state" where
  "logs_error msg s = s\<lparr>logged := logged s @ [(Error, msg)]\<rparr>"

subsection \<open>Collaborators\<close>

text \<open>
  The functions of other modules that the engine calls and whose code is not part of the
  sources at hand. The runner of a target is \<^verbatim>\<open>libfuzzer.get_runner(target_path)\<close>; its
  methods take the target, the arguments of the call and the world, and return the
  result of the process with the world it leaves.
\<close>

text \<open>
  What \<^verbatim>\<open>libfuzzer.pick_strategies\<close> returns. A dictionary that is iterated
  (\<^verbatim>\<open>extra_env.items()\<close>) is a list of pairs in the order of the iteration; the flags of
  the fuzzer arguments are such a list too.
\<close>

record strategy_info =
  si_fuzzing_strategies :: "string list"
  si_arguments :: "string list"
  si_additional_corpus_dirs :: "string list"
  si_extra_env :: "string \<rightharpoonup> string"
  si_is_mutations_run :: bool

text \<open>
  Modelled from the spec: \<^verbatim>\<open>stats.parse_stats_from_merge_log\<close> is missing from the
  sources. The single step merge "yields only cumulative \<^verbatim>\<open>edge_coverage\<close> /
  \<^verbatim>\<open>feature_coverage\<close>", and the engine says of it that it "provides only
  \<^verbatim>\<open>edge_coverage\<close> and \<^verbatim>\<open>feature_coverage\<close> stats": the parser returns the two
  numbers, and \<open>merge_log_stats\<close> is the dictionary with these two keys.
\<close>

definition merge_log_stats :: "int \<times> int \<Rightarrow> (string \<rightharpoonup> int)" where
  "merge_log_stats p = [''edge_coverage'' \<mapsto> fst p, ''feature_coverage'' \<mapsto> snd p]"

record deps =
  runner_merge :: "string \<Rightarrow> merge_call \<Rightarrow> world \<Rightarrow> run_result \<times> world"
  runner_fuzz :: "string \<Rightarrow> fuzz_call \<Rightarrow> world \<Rightarrow> run_result \<times> world"
  get_testcase_path :: "string \<Rightarrow> string list \<Rightarrow> string option"
  set_sanitizer_options :: "string \<Rightarrow> world \<Rightarrow> world"
  get_temp_dir :: "bool \<Rightarrow> string"
  parse_stats_from_merge_log :: "string list \<Rightarrow> int \<times> int"
  get_merge_timeout :: real
  move_mergeable_units :: "string \<Rightarrow> string \<Rightarrow> world \<Rightarrow> world"
  parse_log_stats :: "string list \<Rightarrow> (string \<rightharpoonup> stat_value)"
  parse_performance_features ::
    "string list \<Rightarrow> string list \<Rightarrow> string list \<Rightarrow> (string \<rightharpoonup> stat_value)"
  strip_fuzzing_arguments :: "string list \<Rightarrow> bool \<Rightarrow> string list"
  fix_timeout_argument_for_reproduction :: "string list \<Rightarrow> string list"
  use_minijail :: "world \<Rightarrow> bool"
  mkstemp_suffix :: "world \<Rightarrow> string"
  get_arguments :: "string \<Rightarrow> world \<Rightarrow> (string \<times> string) list"
  get_extra_env :: "string \<Rightarrow> world \<Rightarrow> (string \<times> string) list option"
  generate_weighted_strategy_pool :: "world \<Rightarrow> string list \<times> world"
  pick_strategies ::
    "string list \<Rightarrow> string \<Rightarrow> string \<Rightarrow> (string \<times> string) list \<Rightarrow> world
     \<Rightarrow> strategy_info \<times> world"
  disable_lsan :: "world \<Rightarrow> world"
  unpack_seed_corpus_if_needed :: "string \<Rightarrow> string \<Rightarrow> world \<Rightarrow> world"
  random_choice_subset_size :: "world \<Rightarrow> nat \<times> world"
  copy_from_corpus :: "string \<Rightarrow> string \<Rightarrow> nat \<Rightarrow> world \<Rightarrow> world"
  get_default_dictionary_path :: "string \<Rightarrow> string"
  correct_if_needed :: "string \<Rightarrow> world \<Rightarrow> world"
  process_strategies :: "string list \<Rightarrow> string list"
  USE_EXTRA_SANITIZERS_STRATEGY_name :: string
  CORPUS_SUBSET_STRATEGY_name :: string
  LIBFUZZER_ERROR_EXITCODE :: int
  NONCRASH_RETURN_CODES :: "int list"

subsection \<open>File system helpers\<close>

text \<open>
  Modelled from the spec: \<^verbatim>\<open>engine_common.recreate_directory\<close>,
  \<^verbatim>\<open>shell.get_directory_file_count\<close> and \<^verbatim>\<open>engine_common.create_temp_fuzzing_dir\<close> are
  missing from the sources. The spec: directory creation is "recreate if exists", which
  leaves a fresh, empty directory; a directory "contains zero files" or more.
\<close>

definition recreate_directory :: "string \<Rightarrow> world \<Rightarrow> world" where
  "recreate_directory d w = w\<lparr>fs := (fs w)(d \<mapsto> Dir [])\<rparr>"

definition get_directory_file_count :: "string \<Rightarrow> world \<Rightarrow> nat" where
  "get_directory_file_count d w =
     (case fs w d of Some (Dir names) \<Rightarrow> length names | _ \<Rightarrow> 0)"

definition create_temp_fuzzing_dir :: "deps \<Rightarrow> string \<Rightarrow> world \<Rightarrow> string \<times> world" where
  "create_temp_fuzzing_dir D name w =
     (let new_corpus_directory = os_path_join (get_temp_dir D True) name
      in (new_corpus_directory, recreate_directory new_corpus_directory w))"

text \<open>\<^verbatim>\<open>os.path.exists\<close>.\<close>

definition os_path_exists :: "string \<Rightarrow> world \<Rightarrow> bool" where
  "os_path_exists p w \<longleftrightarrow> fs w p \<noteq> None"

subsection \<open>The probe for multistep merge\<close>

definition MULTISTEP_MERGE_SUPPORT_TOKEN :: string where
  "MULTISTEP_MERGE_SUPPORT_TOKEN = ''fuzz target overwrites its const input''"

text \<open>
  Modelled from the spec: \<^verbatim>\<open>utils.search_bytes_in_file\<close> is missing from the sources.
  The spec: "inspect the target binary for a known byte marker".
\<close>

definition search_bytes_in_file :: "string \<Rightarrow> string \<Rightarrow> bool" where
  "search_bytes_in_file token file_bytes = contains file_bytes token"

text \<open>Opening a directory for reading raises.\<close>

definition is_multistep_merge_supported :: "string \<Rightarrow> world \<Rightarrow> error + bool" where
  "is_multistep_merge_supported target_path w =
     (if os_path_exists target_path w then
        (case fs w target_path of
           Some (File file_bytes) \<Rightarrow>
             Inr (search_bytes_in_file MULTISTEP_MERGE_SUPPORT_TOKEN file_bytes)
         | _ \<Rightarrow> Inl IsADirectoryError)
      else Inr False)"

subsection \<open>Corpus minimization\<close>

definition create_temp_dir :: "deps \<Rightarrow> string \<Rightarrow> world \<Rightarrow> string \<times> world" where
  "create_temp_dir D name w =
     (let new_temp_dir = os_path_join (get_temp_dir D False) name
      in (new_temp_dir, recreate_directory new_temp_dir w))"

definition create_merge_corpus_dir :: "deps \<Rightarrow> world \<Rightarrow> string \<times> world" where
  "create_merge_corpus_dir D w = create_temp_fuzzing_dir D ''merge-corpus'' w"

text \<open>
  \<^verbatim>\<open>Engine.minimize_corpus\<close>. The call of the runner is recorded in \<open>merge_calls\<close>; the
  \<^verbatim>\<open>finally\<close> clause recreates the working directory before the result is looked at.
\<close>

definition minimize_corpus ::
  "deps \<Rightarrow> string \<Rightarrow> string list \<Rightarrow> string list \<Rightarrow> string \<Rightarrow> string option \<Rightarrow> real \<Rightarrow> state
   \<Rightarrow> (error + int FuzzResult) \<times> state" where
  "minimize_corpus D target_path arguments input_dirs output_dir reproducers_dir max_time s =
     (let w1 = set_sanitizer_options D target_path (world s);
          (merge_tmp_dir, w2) = create_temp_dir D ''merge-wd'' w1;
          s1 = logs_info ''Starting merge with timeout'' s;
          call = \<lparr>mc_corpus_directories = output_dir # input_dirs,
                  mc_merge_timeout = max_time,
                  mc_tmp_dir = merge_tmp_dir,
                  mc_additional_args = arguments,
                  mc_artifact_prefix = reproducers_dir,
                  mc_merge_control_file = merge_control_file s\<rparr>;
          (result, w3) = runner_merge D target_path call w2;
          s2 = s1\<lparr>world := recreate_directory merge_tmp_dir w3,
                  merge_calls := merge_calls s1 @ [call]\<rparr>;
          s3 = logs_info ''Merge completed.'' s2
      in if timed_out result then
           (Inl TimeoutError, logs_error ''Merging new testcases timed out.'' s3)
         else if return_code result \<noteq> 0 then
           (Inl MergeError, logs_error ''Merging new testcases failed with error code'' s3)
         else
           (Inr \<lparr>fr_logs = output_text result,
                 fr_command = command result,
                 fr_crashes = [],
                 fr_stats = merge_log_stats
                              (parse_stats_from_merge_log D (splitlines (output_text result))),
                 fr_time_executed = time_executed result,
                 fr_timed_out = None\<rparr>, s3))"

text \<open>\<^verbatim>\<open>d[key]\<close> raises \<^verbatim>\<open>KeyError\<close> on a missing key.\<close>

definition subscript :: "(string \<rightharpoonup> 'v) \<Rightarrow> string \<Rightarrow> error + 'v" where
  "subscript d k = (case d k of None \<Rightarrow> Inl (KeyError k) | Some v \<Rightarrow> Inr v)"

text \<open>
  The end of \<^verbatim>\<open>Engine._minimize_corpus_two_step\<close>, from the statistics of the two
  steps on: the differences, the check for a negative one, and the result.
\<close>

definition two_step_stats ::
  "int \<Rightarrow> int \<Rightarrow> int \<Rightarrow> int \<Rightarrow> bool \<times> (string \<rightharpoonup> int)" where
  "two_step_stats initial_edge initial_feature edge feature =
     (let new_edges = edge - initial_edge;
          new_features = feature - initial_feature;
          failed = (new_edges < 0 \<or> new_features < 0);
          merge_stats =
            [''initial_edge_coverage'' \<mapsto> initial_edge,
             ''initial_feature_coverage'' \<mapsto> initial_feature,
             ''edge_coverage'' \<mapsto> edge,
             ''feature_coverage'' \<mapsto> feature,
             ''new_edges'' \<mapsto> (if failed then 0 else new_edges),
             ''new_features'' \<mapsto> (if failed then 0 else new_features)]
      in (failed, merge_stats))"

text \<open>
  The start of the two step merge: the directory of the merge control file is created
  with \<^verbatim>\<open>create_temp_fuzzing_dir('mcf_tmp_dir')\<close> and the path of the file is stored
  in \<^verbatim>\<open>self._merge_control_file\<close>.
\<close>

definition allocate_merge_control_file :: "deps \<Rightarrow> state \<Rightarrow> state" where
  "allocate_merge_control_file D s =
     (let (merge_control_file_dir, w1) = create_temp_fuzzing_dir D ''mcf_tmp_dir'' (world s)
      in s\<lparr>world := w1,
            merge_control_file := Some (os_path_join merge_control_file_dir ''MCF'')\<rparr>)"

definition minimize_corpus_two_step ::
  "deps \<Rightarrow> string \<Rightarrow> string list \<Rightarrow> string list \<Rightarrow> string \<Rightarrow> string \<Rightarrow> string option \<Rightarrow> real
   \<Rightarrow> state \<Rightarrow> (error + int FuzzResult) \<times> state" where
  "minimize_corpus_two_step D target_path arguments existing_corpus_dirs new_corpus_dir
       output_corpus_dir reproducers_dir max_time s =
     (case is_multistep_merge_supported target_path (world s) of
        Inl e \<Rightarrow> (Inl e, s)
      | Inr False \<Rightarrow>
          minimize_corpus D target_path arguments (existing_corpus_dirs @ [new_corpus_dir])
            output_corpus_dir reproducers_dir max_time
            (logs_info ''Old version of libFuzzer is used. Using single step merge.'' s)
      | Inr True \<Rightarrow>
          (let s1 = allocate_merge_control_file D s
           in case minimize_corpus D target_path arguments existing_corpus_dirs
                     output_corpus_dir reproducers_dir max_time s1 of
                (Inl e, s2) \<Rightarrow> (Inl e, s2)
              | (Inr result_1, s2) \<Rightarrow>
           (case subscript (fr_stats result_1) ''edge_coverage'' of
              Inl e \<Rightarrow> (Inl e, s2)
            | Inr initial_edge \<Rightarrow>
           (case subscript (fr_stats result_1) ''feature_coverage'' of
              Inl e \<Rightarrow> (Inl e, s2)
            | Inr initial_feature \<Rightarrow>
           (let s3 = s2\<lparr>world := recreate_directory output_corpus_dir (world s2)\<rparr>;
                max_time' = max_time - fr_time_executed result_1
            in if max_time' \<le> 0 then
                 (Inl TimeoutError, logs_error ''Merging new testcases timed out.'' s3)
               else
           (case minimize_corpus D target_path arguments
                   (existing_corpus_dirs @ [new_corpus_dir])
                   output_corpus_dir reproducers_dir max_time' s3 of
              (Inl e, s4) \<Rightarrow> (Inl e, s4)
            | (Inr result_2, s4) \<Rightarrow>
           (case subscript (fr_stats result_2) ''edge_coverage'' of
              Inl e \<Rightarrow> (Inl e, s4)
            | Inr edge \<Rightarrow>
           (case subscript (fr_stats result_2) ''feature_coverage'' of
              Inl e \<Rightarrow> (Inl e, s4)
            | Inr feature \<Rightarrow>
           (let (failed, merge_stats) = two_step_stats initial_edge initial_feature edge feature;
                out = fr_logs result_1 @ [CHR 0x0A, CHR 0x0A] @ fr_logs result_2;
                s5 = (if failed then logs_error ''Two step merge failed.'' s4 else s4);
                s6 = s5\<lparr>merge_control_file := None\<rparr>
            in (Inr \<lparr>fr_logs = out,
                      fr_command = fr_command result_2,
                      fr_crashes = [],
                      fr_stats = merge_stats,
                      fr_time_executed = fr_time_executed result_1 + fr_time_executed result_2,
                      fr_timed_out = None\<rparr>, s6))))))))))"

subsection \<open>Merging new units back\<close>

text \<open>
  \<^verbatim>\<open>Engine._merge_new_units\<close>. The dictionary \<^verbatim>\<open>stat_overrides\<close> that the method
  updates in place is returned. Only \<^verbatim>\<open>MergeError\<close> and \<^verbatim>\<open>TimeoutError\<close> are caught.
\<close>

definition record_new_units ::
  "int \<Rightarrow> (string \<rightharpoonup> stat_value) \<Rightarrow> state \<Rightarrow> (string \<rightharpoonup> stat_value) \<times> state" where
  "record_new_units new_units_added stat_overrides s =
     (let s1 = logs_info ''Stats calculated.'' s
      in (stat_overrides(''new_units_added'' \<mapsto> PyInt new_units_added),
          if new_units_added \<noteq> 0 then logs_info ''New units added to corpus'' s1
          else logs_info ''No new units found.'' s1))"

definition merge_new_units ::
  "deps \<Rightarrow> string \<Rightarrow> string \<Rightarrow> string \<Rightarrow> string list \<Rightarrow> string list
   \<Rightarrow> (string \<rightharpoonup> stat_value) \<Rightarrow> state
   \<Rightarrow> (error + (string \<rightharpoonup> stat_value)) \<times> state" where
  "merge_new_units D target_path corpus_dir new_corpus_dir fuzz_corpus_dirs arguments
       stat_overrides s =
     (if get_directory_file_count new_corpus_dir (world s) = 0 then
        (Inr (stat_overrides(''new_units_added'' \<mapsto> PyInt 0)),
         logs_info ''Skipped corpus merge since no new units added by fuzzing.'' s)
      else
        (let (merge_corpus, w1) = create_merge_corpus_dir D (world s);
             merge_dirs = (if corpus_dir \<in> set fuzz_corpus_dirs then fuzz_corpus_dirs
                           else fuzz_corpus_dirs @ [corpus_dir]);
             old_corpus_len = get_directory_file_count corpus_dir w1
         in case minimize_corpus_two_step D target_path arguments merge_dirs new_corpus_dir
                   merge_corpus None (get_merge_timeout D) (s\<lparr>world := w1\<rparr>) of
              (Inr result, s2) \<Rightarrow>
                (let w3 = move_mergeable_units D merge_corpus corpus_dir (world s2);
                     new_corpus_len = get_directory_file_count corpus_dir w3;
                     new_units_added = int new_corpus_len - int old_corpus_len;
                     (stats', s3) = record_new_units new_units_added
                        (stat_overrides ++ (map_option PyInt \<circ> fr_stats result))
                        (s2\<lparr>world := w3\<rparr>)
                 in (Inr stats', s3))
            | (Inl e, s2) \<Rightarrow>
                (if e = MergeError \<or> e = TimeoutError then
                   (let (stats', s3) = record_new_units 0 stat_overrides
                                         (logs_warning ''Merge failed.'' s2)
                    in (Inr stats', s3))
                 else (Inl e, s2))))"

subsection \<open>Fuzzer arguments\<close>

text \<open>
  Modelled from the spec: the class \<^verbatim>\<open>FuzzerArguments\<close> of \<^verbatim>\<open>bot/fuzzers/options.py\<close> is
  missing from the sources. The spec speaks of an "argument list" and of the "timeout
  flag if present": an argument \<^verbatim>\<open>-name=value\<close> is the flag \<^verbatim>\<open>name\<close> with the value
  \<^verbatim>\<open>value\<close>, the flags are a dictionary in the order of insertion, and an argument of
  another form is no flag.
\<close>

type_synonym FuzzerArguments = "(string \<times> string) list"

definition parse_flag :: "string \<Rightarrow> (string \<times> string) option" where
  "parse_flag arg =
     (case arg of
        [] \<Rightarrow> None
      | c # rest \<Rightarrow>
          (if c = CHR ''-'' \<and> CHR ''='' \<in> set rest
           then Some (takeWhile (\<lambda>x. x \<noteq> CHR ''='') rest,
                      tl (dropWhile (\<lambda>x. x \<noteq> CHR ''='') rest))
           else None))"

definition arguments_extend :: "FuzzerArguments \<Rightarrow> string list \<Rightarrow> FuzzerArguments" where
  "arguments_extend flags args_list =
     fold (\<lambda>arg flags'. case parse_flag arg of
                           Some (k, v) \<Rightarrow> AList.update k v flags'
                         | None \<Rightarrow> flags') args_list flags"

definition from_list :: "string list \<Rightarrow> FuzzerArguments" where
  "from_list args_list = arguments_extend [] args_list"

definition arguments_list :: "FuzzerArguments \<Rightarrow> string list" where
  "arguments_list flags = map (\<lambda>(k, v). ''-'' @ k @ ''='' @ v) flags"

text \<open>
  \<^verbatim>\<open>int(s)\<close> of a string: white space around, a sign, decimal digits with single
  underscores between them.
\<close>

definition is_space :: "char \<Rightarrow> bool" where
  "is_space c \<longleftrightarrow> c \<in> {CHR '' '', CHR 0x09, CHR 0x0A, CHR 0x0B, CHR 0x0C, CHR 0x0D}"

definition is_digit :: "char \<Rightarrow> bool" where
  "is_digit c \<longleftrightarrow> (48::nat) \<le> of_char c \<and> (of_char c :: nat) \<le> 57"

definition digit_value :: "char \<Rightarrow> int" where
  "digit_value c = int (of_char c) - 48"

fun well_formed_digits :: "string \<Rightarrow> bool" where
  "well_formed_digits [] = False"
| "well_formed_digits [c] = is_digit c"
| "well_formed_digits (c # d # cs) =
     (is_digit c \<and> (if d = CHR ''_'' then well_formed_digits cs
                     else well_formed_digits (d # cs)))"

definition digits_value :: "string \<Rightarrow> int" where
  "digits_value ds = foldl (\<lambda>acc c. 10 * acc + digit_value c) 0 (filter is_digit ds)"

definition int_of_str :: "string \<Rightarrow> error + int" where
  "int_of_str s =
     (let t = rev (dropWhile is_space (rev (dropWhile is_space s)));
          (neg, ds) = (case t of
                         c # cs \<Rightarrow> if c = CHR ''-'' then (True, cs)
                                   else if c = CHR ''+'' then (False, cs)
                                   else (False, t)
                       | [] \<Rightarrow> (False, t))
      in if well_formed_digits ds
         then Inr (if neg then - digits_value ds else digits_value ds)
         else Inl ValueError)"

definition TIMEOUT_FLAGNAME :: string where
  "TIMEOUT_FLAGNAME = ''timeout''"

text \<open>\<^verbatim>\<open>args.get(constants.TIMEOUT_FLAGNAME, default=None, constructor=int)\<close>.\<close>

definition get_timeout_limit :: "FuzzerArguments \<Rightarrow> error + int option" where
  "get_timeout_limit args =
     (case map_of args TIMEOUT_FLAGNAME of
        None \<Rightarrow> Inr None
      | Some v \<Rightarrow> (case int_of_str v of Inl e \<Rightarrow> Inl e | Inr n \<Rightarrow> Inr (Some n)))"

subsection \<open>The fuzz session\<close>

record LibFuzzerOptions =
  opt_corpus_dir :: string
  opt_arguments :: "string list"
  opt_strategies :: "string list"
  opt_fuzz_corpus_dirs :: "string list"
  opt_extra_env :: "string \<rightharpoonup> string"
  opt_is_mutations_run :: bool
  opt_merge_back_new_testcases :: bool

text \<open>
  \<^verbatim>\<open>tempfile.mkstemp(dir=reproducers_dir)\<close>: a new empty file with a name \<^verbatim>\<open>tmp...\<close> in
  the directory, which is taken to exist.
\<close>

definition create_empty_testcase_file :: "deps \<Rightarrow> string \<Rightarrow> world \<Rightarrow> string \<times> world" where
  "create_empty_testcase_file D reproducers_dir w =
     (let name = ''tmp'' @ mkstemp_suffix D w;
          names = (case fs w reproducers_dir of Some (Dir ns) \<Rightarrow> ns | _ \<Rightarrow> [])
      in (os_path_join reproducers_dir name,
          w\<lparr>fs := (fs w)(reproducers_dir \<mapsto> Dir (names @ [name]))\<rparr>))"

definition fuzz_output_contains_trusty_kernel_panic :: "string list \<Rightarrow> bool" where
  "fuzz_output_contains_trusty_kernel_panic log_lines =
     list_ex (\<lambda>line. contains line ''panic notifier - trusty version'') log_lines"

text \<open>\<^verbatim>\<open>DICT_PARSING_FAILED_REGEX.search(output)\<close> finds a match.\<close>

fun dict_parsing_failed :: "string \<Rightarrow> bool" where
  "dict_parsing_failed [] = False"
| "dict_parsing_failed (c # cs) =
     ((startswith (c # cs) ''ParseDictionaryFile: error in line '' \<and>
       (case drop (length ''ParseDictionaryFile: error in line '') (c # cs) of
          [] \<Rightarrow> False | d # _ \<Rightarrow> is_digit d))
      \<or> dict_parsing_failed cs)"

text \<open>The truth value of a path that may be \<^verbatim>\<open>None\<close> or empty.\<close>

definition truthy :: "string option \<Rightarrow> bool" where
  "truthy p \<longleftrightarrow> (case p of None \<Rightarrow> False | Some x \<Rightarrow> x \<noteq> [])"

text \<open>
  What \<^verbatim>\<open>Engine.fuzz\<close> has computed when it turns to the new units: the directory of
  the new units (if they are merged back), the result of the runner, the lines of its
  output, the path of the crash testcase, the statistics, and the arguments without
  the fuzzing arguments.
\<close>

record fuzz_context =
  fx_new_corpus_dir :: "string option"
  fx_fuzz_result :: run_result
  fx_log_lines :: "string list"
  fx_crash_testcase_file_path :: "string option"
  fx_parsed_stats :: "string \<rightharpoonup> stat_value"
  fx_actual_duration :: int
  fx_non_fuzz_arguments :: "string list"

text \<open>\<^verbatim>\<open>Engine.fuzz\<close> up to and including \<^verbatim>\<open>strip_fuzzing_arguments(..., is_merge=True)\<close>.\<close>

text \<open>
  The condition under which \<^verbatim>\<open>Engine.fuzz\<close> stores the exit of the run in an empty
  testcase file: no crash testcase in the output and a return code that is not one of
  \<^verbatim>\<open>NONCRASH_RETURN_CODES\<close>, or a kernel panic of Trusty in the output.
\<close>

definition placeholder_needed :: "deps \<Rightarrow> string \<Rightarrow> run_result \<Rightarrow> bool" where
  "placeholder_needed D target_path fuzz_result \<longleftrightarrow>
     (\<not> truthy (get_testcase_path D target_path (splitlines (output_text fuzz_result))) \<and>
      return_code fuzz_result \<notin> set (NONCRASH_RETURN_CODES D))
     \<or> fuzz_output_contains_trusty_kernel_panic (splitlines (output_text fuzz_result))"

text \<open>The start of \<^verbatim>\<open>Engine.fuzz\<close>, up to the return of \<^verbatim>\<open>runner.fuzz\<close>.\<close>

definition start_fuzzer ::
  "deps \<Rightarrow> string \<Rightarrow> LibFuzzerOptions \<Rightarrow> string \<Rightarrow> real \<Rightarrow> world
   \<Rightarrow> string option \<times> run_result \<times> world" where
  "start_fuzzer D target_path options reproducers_dir max_time w =
     (let w0 = set_sanitizer_options D target_path w;
          (new_corpus_dir, corpus_directories, w1) =
            (if opt_merge_back_new_testcases options then
               (let (d, w') = create_temp_fuzzing_dir D ''new'' w0
                in (Some d, d # opt_fuzz_corpus_dirs options, w'))
             else (None, opt_fuzz_corpus_dirs options, w0));
          (fuzz_result, w2) = runner_fuzz D target_path
             \<lparr>fc_corpus_directories = corpus_directories,
              fc_fuzz_timeout = max_time,
              fc_additional_args = opt_arguments options,
              fc_artifact_prefix = reproducers_dir,
              fc_extra_env = opt_extra_env options\<rparr> w1
      in (new_corpus_dir, fuzz_result, w2))"

definition fuzz_run ::
  "deps \<Rightarrow> string \<Rightarrow> LibFuzzerOptions \<Rightarrow> string \<Rightarrow> real \<Rightarrow> state
   \<Rightarrow> (error + fuzz_context) \<times> state" where
  "fuzz_run D target_path options reproducers_dir max_time s =
     (let (new_corpus_dir, fuzz_result, w2) =
            start_fuzzer D target_path options reproducers_dir max_time (world s);
          s1 = (if dict_parsing_failed (output_text fuzz_result) then
                  logs_error ''Dictionary parsing failed'' s
                else if \<not> use_minijail D w2 \<and>
                        return_code fuzz_result = LIBFUZZER_ERROR_EXITCODE D then
                  logs_error ''libFuzzer: engine encountered an error'' s
                else s);
          log_lines = splitlines (output_text fuzz_result);
          parsed_path = get_testcase_path D target_path log_lines;
          (crash_testcase_file_path, w3) =
            (if placeholder_needed D target_path fuzz_result
             then (let (p, w) = create_empty_testcase_file D reproducers_dir w2
                   in (Some p, w))
             else (parsed_path, w2));
          s2 = s1\<lparr>world := w3\<rparr>;
          parsed_stats = parse_log_stats D log_lines
             ++ parse_performance_features D log_lines (opt_strategies options)
                  (opt_arguments options);
          args = from_list (opt_arguments options)
      in case get_timeout_limit args of
           Inl e \<Rightarrow> (Inl e, s2)
         | Inr timeout_limit \<Rightarrow>
             (let actual_duration = py_int (time_executed fuzz_result)
              in if max_time = 0 then (Inl ZeroDivisionError, s2)
                 else
                   (let fuzzing_time_percent = 100 * real_of_int actual_duration / max_time;
                        parsed_stats' = parsed_stats
                          (''timeout_limit'' \<mapsto>
                             (case timeout_limit of None \<Rightarrow> PyNone | Some n \<Rightarrow> PyInt n),
                           ''expected_duration'' \<mapsto> PyInt (py_int max_time),
                           ''actual_duration'' \<mapsto> PyInt actual_duration,
                           ''fuzzing_time_percent'' \<mapsto> PyFloat fuzzing_time_percent)
                    in (Inr \<lparr>fx_new_corpus_dir = new_corpus_dir,
                              fx_fuzz_result = fuzz_result,
                              fx_log_lines = log_lines,
                              fx_crash_testcase_file_path = crash_testcase_file_path,
                              fx_parsed_stats = parsed_stats',
                              fx_actual_duration = actual_duration,
                              fx_non_fuzz_arguments =
                                strip_fuzzing_arguments D (arguments_list args) True\<rparr>,
                        s2))))"

text \<open>The end of \<^verbatim>\<open>Engine.fuzz\<close>: the crash record, if any, and the result.\<close>

definition fuzz_finish ::
  "deps \<Rightarrow> LibFuzzerOptions \<Rightarrow> fuzz_context \<Rightarrow> (string \<rightharpoonup> stat_value)
   \<Rightarrow> stat_value FuzzResult" where
  "fuzz_finish D options cx parsed_stats =
     (let fuzz_logs = join_lines (fx_log_lines cx);
          crashes =
            (case fx_crash_testcase_file_path cx of
               None \<Rightarrow> []
             | Some crash_testcase_file_path \<Rightarrow>
                 (if crash_testcase_file_path \<noteq> [] then
                    [\<lparr>crash_input_path = crash_testcase_file_path,
                      crash_logs = fuzz_logs,
                      crash_reproduce_arguments =
                        fix_timeout_argument_for_reproduction D
                          (strip_fuzzing_arguments D (opt_arguments options) False),
                      crash_duration = fx_actual_duration cx\<rparr>]
                  else []))
      in \<lparr>fr_logs = fuzz_logs,
          fr_command = command (fx_fuzz_result cx),
          fr_crashes = crashes,
          fr_stats = parsed_stats,
          fr_time_executed = time_executed (fx_fuzz_result cx),
          fr_timed_out = Some (timed_out (fx_fuzz_result cx))\<rparr>)"

text \<open>\<^verbatim>\<open>Engine.fuzz\<close>.\<close>

definition fuzz ::
  "deps \<Rightarrow> string \<Rightarrow> LibFuzzerOptions \<Rightarrow> string \<Rightarrow> real \<Rightarrow> state
   \<Rightarrow> (error + stat_value FuzzResult) \<times> state" where
  "fuzz D target_path options reproducers_dir max_time s =
     (case fuzz_run D target_path options reproducers_dir max_time s of
        (Inl e, s1) \<Rightarrow> (Inl e, s1)
      | (Inr cx, s1) \<Rightarrow>
          (case fx_new_corpus_dir cx of
             None \<Rightarrow> (Inr (fuzz_finish D options cx (fx_parsed_stats cx)), s1)
           | Some new_corpus_dir \<Rightarrow>
               (case merge_new_units D target_path (opt_corpus_dir options) new_corpus_dir
                       (opt_fuzz_corpus_dirs options) (fx_non_fuzz_arguments cx)
                       (fx_parsed_stats cx) s1 of
                  (Inl e, s2) \<Rightarrow> (Inl e, s2)
                | (Inr parsed_stats, s2) \<Rightarrow>
                    (Inr (fuzz_finish D options cx parsed_stats), s2))))"

subsection \<open>Preparing a session\<close>

text \<open>\<^verbatim>\<open>str(n)\<close> of a natural number.\<close>

fun str_nat :: "nat \<Rightarrow> string" where
  "str_nat n =
     (if n < 10 then [char_of (48 + n)]
      else str_nat (n div 10) @ [char_of (48 + n mod 10)])"

declare str_nat.simps [simp del]

definition DICT_FLAGNAME :: string where
  "DICT_FLAGNAME = ''dict''"

text \<open>
  The loop of \<^verbatim>\<open>Engine.prepare\<close> over \<^verbatim>\<open>extra_env.items()\<close>: a variable of the fuzzer's
  options is stored only if the strategies have not set it.
\<close>

definition update_extra_env ::
  "(string \<times> string) list option \<Rightarrow> (string \<rightharpoonup> string) \<Rightarrow> (string \<rightharpoonup> string)" where
  "update_extra_env extra_env strategy_env =
     (case extra_env of
        None \<Rightarrow> strategy_env
      | Some items \<Rightarrow>
          fold (\<lambda>(env_var_name, v) env.
                  if env env_var_name = None then env(env_var_name \<mapsto> v) else env)
               items strategy_env)"

text \<open>The check of the dictionary argument in \<^verbatim>\<open>Engine.prepare\<close>.\<close>

definition check_dict_argument ::
  "deps \<Rightarrow> string \<Rightarrow> FuzzerArguments \<Rightarrow> state \<Rightarrow> FuzzerArguments \<times> state" where
  "check_dict_argument D target_path arguments s =
     (let (arguments1, s1) =
            (case map_of arguments DICT_FLAGNAME of
               Some dict_path \<Rightarrow>
                 (if dict_path \<noteq> [] \<and> \<not> os_path_exists dict_path (world s)
                  then (AList.delete DICT_FLAGNAME arguments, logs_error ''Cannot find dict'' s)
                  else (arguments, s))
             | None \<Rightarrow> (arguments, s));
          dict_path = map_of arguments1 DICT_FLAGNAME;
          (dict_path', arguments2) =
            (if \<not> truthy dict_path then
               (let default_path = get_default_dictionary_path D target_path
                in (default_path,
                    if os_path_exists default_path (world s1)
                    then AList.update DICT_FLAGNAME default_path arguments1
                    else arguments1))
             else (case dict_path of Some p \<Rightarrow> p | None \<Rightarrow> [], arguments1))
      in (arguments2, s1\<lparr>world := correct_if_needed D dict_path' (world s1)\<rparr>))"

text \<open>
  \<^verbatim>\<open>Engine.prepare\<close>; \<open>do_strategies\<close> is the attribute \<^verbatim>\<open>self.do_strategies\<close> and a
  strategy pool is the list of the names of the strategies to do.
\<close>

definition prepare ::
  "deps \<Rightarrow> bool \<Rightarrow> string \<Rightarrow> string \<Rightarrow> state \<Rightarrow> LibFuzzerOptions \<times> state" where
  "prepare D do_strategies corpus_dir target_path s =
     (let arguments = get_arguments D target_path (world s);
          extra_env = get_extra_env D target_path (world s);
          (strategy_pool, w1) =
            (if do_strategies then generate_weighted_strategy_pool D (world s)
             else ([], world s));
          (info, w2) = pick_strategies D strategy_pool target_path corpus_dir arguments w1;
          w3 = (if USE_EXTRA_SANITIZERS_STRATEGY_name D \<in> set (si_fuzzing_strategies info)
                then disable_lsan D (w2\<lparr>environ := (environ w2)(''USE_EXTRA_SANITIZERS'' \<mapsto> ''True'')\<rparr>)
                else w2\<lparr>environ := (environ w2)(''USE_EXTRA_SANITIZERS'' \<mapsto> ''False'')\<rparr>);
          arguments1 = arguments_extend arguments (si_arguments info);
          info1 = info\<lparr>si_extra_env := update_extra_env extra_env (si_extra_env info)\<rparr>;
          w4 = unpack_seed_corpus_if_needed D target_path corpus_dir w3;
          (subset_size, w5) = random_choice_subset_size D w4;
          (info2, w6) =
            (if CORPUS_SUBSET_STRATEGY_name D \<in> set strategy_pool \<and>
                get_directory_file_count corpus_dir w5 > subset_size
             then
               (let (corpus_subset_dir, w) = create_temp_fuzzing_dir D ''subset'' w5;
                    w' = copy_from_corpus D corpus_subset_dir corpus_dir subset_size w
                in (info1\<lparr>si_fuzzing_strategies := si_fuzzing_strategies info1 @
                             [CORPUS_SUBSET_STRATEGY_name D @ ''_'' @ str_nat subset_size],
                           si_additional_corpus_dirs :=
                             si_additional_corpus_dirs info1 @ [corpus_subset_dir]\<rparr>, w'))
             else
               (info1\<lparr>si_additional_corpus_dirs :=
                         si_additional_corpus_dirs info1 @ [corpus_dir]\<rparr>, w5));
          (arguments2, s1) = check_dict_argument D target_path arguments1 (s\<lparr>world := w6\<rparr>)
      in (\<lparr>opt_corpus_dir = corpus_dir,
            opt_arguments = arguments_list arguments2,
            opt_strategies = process_strategies D (si_fuzzing_strategies info2),
            opt_fuzz_corpus_dirs = si_additional_corpus_dirs info2,
            opt_extra_env = si_extra_env info2,
            opt_is_mutations_run = si_is_mutations_run info2,
            opt_merge_back_new_testcases = True\<rparr>, s1))"

subsection \<open>A concrete machine\<close>

text \<open>
  Collaborators and a world on which the definitions can be run: a target that supports
  multistep merge and one that does not, a runner whose merges and whose fuzz run are
  given, and strategies that set \<^verbatim>\<open>ASAN_OPTIONS\<close>, as the target's options do.
\<close>

definition demo_world :: world where
  "demo_world =
     \<lparr>fs = [''/bin/target'' \<mapsto> File ''ELF: fuzz target overwrites its const input.'',
             ''/bin/old_target'' \<mapsto> File ''ELF'',
             ''/corpus'' \<mapsto> Dir [''a'', ''b''],
             ''/repro'' \<mapsto> Dir []],
      environ = Map.empty,
      outside = 0\<rparr>"

definition demo_state :: state where
  "demo_state =
     \<lparr>world = demo_world, merge_control_file = None, merge_calls = [], logged = []\<rparr>"

definition demo_deps :: "(merge_call \<Rightarrow> run_result) \<Rightarrow> run_result \<Rightarrow> string list \<Rightarrow> deps" where
  "demo_deps merges fuzz_result new_units =
     \<lparr>runner_merge = (\<lambda>target c w. (merges c, w\<lparr>outside := Suc (outside w)\<rparr>)),
      runner_fuzz = (\<lambda>target c w.
         (fuzz_result,
          case fc_corpus_directories c of
            [] \<Rightarrow> w
          | d # ds \<Rightarrow> w\<lparr>fs := (fs w)(d \<mapsto> Dir new_units)\<rparr>)),
      get_testcase_path = (\<lambda>target log_lines.
         map_option (drop 9) (find (\<lambda>l. startswith l ''artifact='') log_lines)),
      set_sanitizer_options = (\<lambda>target w. w),
      get_temp_dir = (\<lambda>use_fuzz_inputs_disk. if use_fuzz_inputs_disk then ''/inputs'' else ''/tmp''),
      parse_stats_from_merge_log = (\<lambda>log_lines.
         (int (length log_lines), int (length (concat log_lines)))),
      get_merge_timeout = 600,
      move_mergeable_units = (\<lambda>merge_directory corpus_directory w. w),
      parse_log_stats = (\<lambda>log_lines. [''crash_count'' \<mapsto> PyInt 0]),
      parse_performance_features = (\<lambda>log_lines strategies arguments. Map.empty),
      strip_fuzzing_arguments = (\<lambda>arguments is_merge.
         filter (\<lambda>a. \<not> startswith a ''-max_total_time='') arguments),
      fix_timeout_argument_for_reproduction = (\<lambda>arguments. arguments),
      use_minijail = (\<lambda>w. False),
      mkstemp_suffix = (\<lambda>w. ''00000000''),
      get_arguments = (\<lambda>target w. [(''rss_limit_mb'', ''2560'')]),
      get_extra_env = (\<lambda>target w. Some [(''ASAN_OPTIONS'', ''caller''), (''FOO'', ''bar'')]),
      generate_weighted_strategy_pool = (\<lambda>w. ([''corpus_subset''], w)),
      pick_strategies = (\<lambda>pool target corpus_dir arguments w.
         (\<lparr>si_fuzzing_strategies = [''value_profile''],
           si_arguments = [''-use_value_profile=1''],
           si_additional_corpus_dirs = [],
           si_extra_env = [''ASAN_OPTIONS'' \<mapsto> ''strategy''],
           si_is_mutations_run = False\<rparr>, w)),
      disable_lsan = (\<lambda>w. w),
      unpack_seed_corpus_if_needed = (\<lambda>target corpus_dir w. w),
      random_choice_subset_size = (\<lambda>w. (10, w)),
      copy_from_corpus = (\<lambda>dst src n w. w),
      get_default_dictionary_path = (\<lambda>target. target @ ''.dict''),
      correct_if_needed = (\<lambda>dict_path w. w),
      process_strategies = (\<lambda>strategies. strategies),
      USE_EXTRA_SANITIZERS_STRATEGY_name = ''extra_sanitizers'',
      CORPUS_SUBSET_STRATEGY_name = ''corpus_subset'',
      LIBFUZZER_ERROR_EXITCODE = 1,
      NONCRASH_RETURN_CODES = [0, 1]\<rparr>"

text \<open>A successful, a slow, a timed out and a failed run.\<close>

definition demo_run :: "string \<Rightarrow> real \<Rightarrow> run_result" where
  "demo_run out t =
     \<lparr>command = [''/bin/target''], output_text = out, return_code = 0,
      time_executed = t, timed_out = False\<rparr>"

definition demo_options :: LibFuzzerOptions where
  "demo_options =
     \<lparr>opt_corpus_dir = ''/corpus'',
      opt_arguments = [''-max_len=100'', ''-max_total_time=60''],
      opt_strategies = [],
      opt_fuzz_corpus_dirs = [''/corpus''],
      opt_extra_env = Map.empty,
      opt_is_mutations_run = False,
      opt_merge_back_new_testcases = True\<rparr>"

text \<open>
  Merges of the runner: one whose second step reports less coverage than the first, one
  that takes the whole time allowed, one that times out, and one that fails.
\<close>

definition demo_merges_shrinking :: "merge_call \<Rightarrow> run_result" where
  "demo_merges_shrinking c =
     demo_run (if length (mc_corpus_directories c) = 2
               then [CHR ''a'', CHR 0x0A, CHR ''b'', CHR 0x0A, CHR ''c'']
               else ''a'') 5"

definition demo_merges_slow :: "merge_call \<Rightarrow> run_result" where
  "demo_merges_slow c = demo_run ''a'' 600"

definition demo_merges_timed_out :: "merge_call \<Rightarrow> run_result" where
  "demo_merges_timed_out c = (demo_run ''a'' 600)\<lparr>timed_out := True\<rparr>"

definition demo_merges_failed :: "merge_call \<Rightarrow> run_result" where
  "demo_merges_failed c = (demo_run ''failed'' 5)\<lparr>return_code := 3\<rparr>"

text \<open>
  Fuzz runs of the runner: one that ends without a crash, one that exits at startup
  with a return code of its own and names no testcase, and one whose output names a crash
  testcase and shows a kernel panic of Trusty.
\<close>

definition demo_fuzz_ok :: run_result where
  "demo_fuzz_ok = demo_run ''#2 INITED cov: 12 ft: 13'' (61 / 2)"

definition demo_fuzz_startup_crash :: run_result where
  "demo_fuzz_startup_crash = (demo_run ''==1==ERROR: startup'' 1)\<lparr>return_code := 77\<rparr>"

definition demo_fuzz_panic :: run_result where
  "demo_fuzz_panic =
     demo_run (''artifact=/repro/crash-1'' @ [CHR 0x0A] @ ''panic notifier - trusty version'') 30"

section \<open>Properties\<close>

subsection \<open>Corpus minimization\<close>

lemma minimize_corpus_state:
  assumes "minimize_corpus D target_path arguments input_dirs output_dir reproducers_dir max_time s
             = (res, s')"
  shows "merge_control_file s' = merge_control_file s"
    and "\<exists>c. merge_calls s' = merge_calls s @ [c]
             \<and> mc_merge_control_file c = merge_control_file s
             \<and> mc_corpus_directories c = output_dir # input_dirs
             \<and> mc_merge_timeout c = max_time"
  using assms
  by (auto simp: minimize_corpus_def Let_def logs_info_def logs_error_def
      split: if_splits prod.splits)

lemma minimize_corpus_result:
  assumes "minimize_corpus D target_path arguments input_dirs output_dir reproducers_dir max_time s
             = (Inr r, s')"
  shows "fr_stats r = merge_log_stats (the (fr_stats r ''edge_coverage''),
                                        the (fr_stats r ''feature_coverage''))"
  using assms
  by (auto simp: minimize_corpus_def Let_def merge_log_stats_def split: if_splits prod.splits)

lemma minimize_corpus_subscript:
  assumes "minimize_corpus D target_path arguments input_dirs output_dir reproducers_dir max_time s
             = (Inr r, s')"
  shows "subscript (fr_stats r) ''edge_coverage'' = Inr (the (fr_stats r ''edge_coverage''))"
    and "subscript (fr_stats r) ''feature_coverage'' = Inr (the (fr_stats r ''feature_coverage''))"
  using assms
  by (auto simp: minimize_corpus_def Let_def merge_log_stats_def subscript_def
      split: if_splits prod.splits)

lemma minimize_corpus_error:
  assumes "minimize_corpus D target_path arguments input_dirs output_dir reproducers_dir max_time s
             = (Inl e, s')"
  shows "e = MergeError \<or> e = TimeoutError"
  using assms
  by (auto simp: minimize_corpus_def Let_def split: if_splits prod.splits)

lemma subscript_merge_log_stats [simp]:
  "subscript (merge_log_stats p) ''edge_coverage'' = Inr (fst p)"
  "subscript (merge_log_stats p) ''feature_coverage'' = Inr (snd p)"
  by (simp_all add: subscript_def merge_log_stats_def)

lemma allocate_fields [simp]:
  "merge_calls (allocate_merge_control_file D s) = merge_calls s"
  "merge_control_file (allocate_merge_control_file D s) =
     Some (os_path_join (os_path_join (get_temp_dir D True) ''mcf_tmp_dir'') ''MCF'')"
  by (simp_all add: allocate_merge_control_file_def create_temp_fuzzing_dir_def Let_def)

text \<open>Unfolding of the two-step merge on a target that supports it.\<close>

lemma two_step_supported:
  assumes sup: "is_multistep_merge_supported target_path (world s) = Inr True"
  shows "minimize_corpus_two_step D target_path arguments existing new_corpus_dir
           output_corpus_dir reproducers_dir max_time s =
     (case minimize_corpus D target_path arguments existing output_corpus_dir reproducers_dir
             max_time (allocate_merge_control_file D s) of
        (Inl e, s2) \<Rightarrow> (Inl e, s2)
      | (Inr result_1, s2) \<Rightarrow>
          (let s3 = s2\<lparr>world := recreate_directory output_corpus_dir (world s2)\<rparr>;
               max_time' = max_time - fr_time_executed result_1
           in if max_time' \<le> 0 then
                (Inl TimeoutError, logs_error ''Merging new testcases timed out.'' s3)
              else
                (case minimize_corpus D target_path arguments (existing @ [new_corpus_dir])
                        output_corpus_dir reproducers_dir max_time' s3 of
                   (Inl e, s4) \<Rightarrow> (Inl e, s4)
                 | (Inr result_2, s4) \<Rightarrow>
                     (let (failed, merge_stats) =
                            two_step_stats
                              (the (fr_stats result_1 ''edge_coverage''))
                              (the (fr_stats result_1 ''feature_coverage''))
                              (the (fr_stats result_2 ''edge_coverage''))
                              (the (fr_stats result_2 ''feature_coverage''));
                          s5 = (if failed then logs_error ''Two step merge failed.'' s4 else s4)
                      in (Inr \<lparr>fr_logs = fr_logs result_1 @ [CHR 0x0A, CHR 0x0A] @ fr_logs result_2,
                                fr_command = fr_command result_2,
                                fr_crashes = [],
                                fr_stats = merge_stats,
                                fr_time_executed =
                                  fr_time_executed result_1 + fr_time_executed result_2,
                                fr_timed_out = None\<rparr>,
                          s5\<lparr>merge_control_file := None\<rparr>)))))"
proof -
  let ?s1 = "allocate_merge_control_file D s"
  obtain r1 s2 where m1:
    "minimize_corpus D target_path arguments existing output_corpus_dir reproducers_dir
       max_time ?s1 = (r1, s2)"
    by (cases "minimize_corpus D target_path arguments existing output_corpus_dir
                 reproducers_dir max_time ?s1")
  show ?thesis
  proof (cases r1)
    case (Inl e)
    then show ?thesis
      by (simp add: minimize_corpus_two_step_def sup m1 Let_def)
  next
    case (Inr result_1)
    note k1 = minimize_corpus_subscript [OF m1 [unfolded Inr]]
    let ?s3 = "s2\<lparr>world := recreate_directory output_corpus_dir (world s2)\<rparr>"
    let ?t = "max_time - fr_time_executed result_1"
    show ?thesis
    proof (cases "?t \<le> 0")
      case True
      then show ?thesis
        by (simp add: minimize_corpus_two_step_def sup m1 Inr k1 Let_def)
    next
      case False
      obtain r2 s4 where m2:
        "minimize_corpus D target_path arguments (existing @ [new_corpus_dir])
           output_corpus_dir reproducers_dir ?t ?s3 = (r2, s4)"
        by (cases "minimize_corpus D target_path arguments (existing @ [new_corpus_dir])
                     output_corpus_dir reproducers_dir ?t ?s3")
      show ?thesis
      proof (cases r2)
        case (Inl e)
        with False show ?thesis
          by (simp add: minimize_corpus_two_step_def sup m1 Inr k1 m2 Let_def)
      next
        case r2: (Inr result_2)
        note k2 = minimize_corpus_subscript [OF m2 [unfolded r2]]
        from False show ?thesis
          by (simp add: minimize_corpus_two_step_def sup m1 Inr k1 m2 r2 k2 Let_def
              split: prod.splits)
      qed
    qed
  qed
qed


lemma minimize_corpus_logs_info:
  "fst (minimize_corpus D target_path arguments input_dirs output_dir reproducers_dir max_time
          (logs_info msg s))
     = fst (minimize_corpus D target_path arguments input_dirs output_dir reproducers_dir max_time s)"
  "world (snd (minimize_corpus D target_path arguments input_dirs output_dir reproducers_dir
          max_time (logs_info msg s)))
     = world (snd (minimize_corpus D target_path arguments input_dirs output_dir reproducers_dir
          max_time s))"
  "merge_calls (snd (minimize_corpus D target_path arguments input_dirs output_dir
          reproducers_dir max_time (logs_info msg s)))
     = merge_calls (snd (minimize_corpus D target_path arguments input_dirs output_dir
          reproducers_dir max_time s))"
  "merge_control_file (snd (minimize_corpus D target_path arguments input_dirs output_dir
          reproducers_dir max_time (logs_info msg s)))
     = merge_control_file (snd (minimize_corpus D target_path arguments input_dirs output_dir
          reproducers_dir max_time s))"
  by (simp_all add: minimize_corpus_def Let_def logs_info_def logs_error_def
      split: prod.splits)

lemma minimize_corpus_dom:
  assumes "fst (minimize_corpus D target_path arguments input_dirs output_dir reproducers_dir
             max_time s) = Inr r"
  shows "dom (fr_stats r) = {''edge_coverage'', ''feature_coverage''}"
  using assms
  by (auto simp: minimize_corpus_def Let_def merge_log_stats_def split: if_splits prod.splits)

lemma demo_supported:
  "is_multistep_merge_supported ''/bin/target'' (world demo_state) = Inr True"
  "is_multistep_merge_supported ''/bin/old_target'' (world demo_state) = Inr False"
  by (simp_all add: is_multistep_merge_supported_def os_path_exists_def demo_world_def
      demo_state_def search_bytes_in_file_def MULTISTEP_MERGE_SUPPORT_TOKEN_def)

lemmas demo_eval =
  minimize_corpus_def Let_def demo_deps_def demo_run_def create_temp_dir_def
  logs_info_def logs_error_def allocate_merge_control_file_def create_temp_fuzzing_dir_def
  os_path_join_def two_step_stats_def merge_log_stats_def splitlines_def
  is_linebreak_def recreate_directory_def demo_state_def
  demo_merges_shrinking_def demo_merges_slow_def demo_merges_timed_out_def
  demo_merges_failed_def

text \<open>
  Claim C8. Let \<open>result\<close> be what the runner returns for the merge that
  \<^verbatim>\<open>minimize_corpus\<close> starts. The method raises \<^verbatim>\<open>TimeoutError\<close> exactly when
  \<open>result\<close> has timed out, it raises \<^verbatim>\<open>MergeError\<close> exactly when \<open>result\<close> has not
  timed out and its return code is not zero, and otherwise it returns the output, the
  command, the statistics parsed from the output and the time of \<open>result\<close>. In each of
  the three cases the working directory of the merge has been recreated after the run
  and holds no file.
\<close>

theorem minimize_corpus_outcome:
  assumes "create_temp_dir D ''merge-wd'' (set_sanitizer_options D target_path (world s)) = (tmp, w2)"
    and "runner_merge D target_path
           \<lparr>mc_corpus_directories = output_dir # input_dirs, mc_merge_timeout = max_time,
            mc_tmp_dir = tmp, mc_additional_args = arguments,
            mc_artifact_prefix = reproducers_dir,
            mc_merge_control_file = merge_control_file s\<rparr> w2 = (result, w3)"
    and "minimize_corpus D target_path arguments input_dirs output_dir reproducers_dir max_time s
           = (res, s')"
  shows "(res = Inl TimeoutError \<longleftrightarrow> timed_out result)
       \<and> (res = Inl MergeError \<longleftrightarrow> \<not> timed_out result \<and> return_code result \<noteq> 0)
       \<and> (\<not> timed_out result \<and> return_code result = 0 \<longrightarrow>
            res = Inr \<lparr>fr_logs = output_text result, fr_command = command result,
                       fr_crashes = [],
                       fr_stats = merge_log_stats
                         (parse_stats_from_merge_log D (splitlines (output_text result))),
                       fr_time_executed = time_executed result, fr_timed_out = None\<rparr>)
       \<and> world s' = recreate_directory tmp w3
       \<and> fs (world s') tmp = Some (Dir [])
       \<and> get_directory_file_count tmp (world s') = 0"
  using assms
  by (auto simp: minimize_corpus_def Let_def logs_info_def logs_error_def
      recreate_directory_def get_directory_file_count_def split: if_splits)

theorem minimize_corpus_outcome_witness:
  "fst (minimize_corpus (demo_deps demo_merges_failed (demo_run [] 0) [])
          ''/bin/target'' [] [''/corpus''] ''/out'' None 600 demo_state)
     = Inl MergeError
   \<and> get_directory_file_count ''/tmp/merge-wd''
       (world (snd (minimize_corpus (demo_deps demo_merges_failed (demo_run [] 0) [])
          ''/bin/target'' [] [''/corpus''] ''/out'' None 600 demo_state))) = 0"
proof -
  let ?D = "demo_deps demo_merges_failed (demo_run [] 0) []"
  let ?w2 = "recreate_directory ''/tmp/merge-wd'' demo_world"
  have h1: "create_temp_dir ?D ''merge-wd''
              (set_sanitizer_options ?D ''/bin/target'' (world demo_state)) = (''/tmp/merge-wd'', ?w2)"
    by (simp add: create_temp_dir_def demo_deps_def demo_state_def os_path_join_def Let_def)
  have h2: "runner_merge ?D ''/bin/target''
           \<lparr>mc_corpus_directories = ''/out'' # [''/corpus''], mc_merge_timeout = 600,
            mc_tmp_dir = ''/tmp/merge-wd'', mc_additional_args = [],
            mc_artifact_prefix = None,
            mc_merge_control_file = merge_control_file demo_state\<rparr> ?w2
          = (demo_merges_failed
               \<lparr>mc_corpus_directories = ''/out'' # [''/corpus''], mc_merge_timeout = 600,
                mc_tmp_dir = ''/tmp/merge-wd'', mc_additional_args = [],
                mc_artifact_prefix = None,
                mc_merge_control_file = merge_control_file demo_state\<rparr>,
             ?w2\<lparr>outside := Suc (outside ?w2)\<rparr>)"
    by (simp add: demo_deps_def)
  note outcome = minimize_corpus_outcome [OF h1 h2 surjective_pairing]
  have "fst (minimize_corpus ?D ''/bin/target'' [] [''/corpus''] ''/out'' None 600 demo_state)
          = Inl MergeError"
    using outcome [THEN conjunct2, THEN conjunct1]
    by (simp add: demo_merges_failed_def demo_run_def)
  with outcome show ?thesis
    by blast
qed

text \<open>
  Claim C4. On a target without the marker of multistep merge the two step merge
  returns what one call of \<^verbatim>\<open>minimize_corpus\<close> on the existing directories followed
  by the new one returns, with the same output directory, reproducers directory and
  time limit: the same result or error, the same world, the same single call of the
  runner, and \<^verbatim>\<open>self._merge_control_file\<close> as it was (the states differ by one line
  of the log only). The statistics of a result have the keys \<^verbatim>\<open>edge_coverage\<close> and
  \<^verbatim>\<open>feature_coverage\<close> and no other.
\<close>

theorem two_step_fallback:
  assumes "is_multistep_merge_supported target_path (world s) = Inr False"
  shows "fst (minimize_corpus_two_step D target_path arguments existing new_corpus_dir
                output_corpus_dir reproducers_dir max_time s)
           = fst (minimize_corpus D target_path arguments (existing @ [new_corpus_dir])
                    output_corpus_dir reproducers_dir max_time s)
       \<and> world (snd (minimize_corpus_two_step D target_path arguments existing new_corpus_dir
                output_corpus_dir reproducers_dir max_time s))
           = world (snd (minimize_corpus D target_path arguments (existing @ [new_corpus_dir])
                    output_corpus_dir reproducers_dir max_time s))
       \<and> merge_calls (snd (minimize_corpus_two_step D target_path arguments existing
                new_corpus_dir output_corpus_dir reproducers_dir max_time s))
           = merge_calls (snd (minimize_corpus D target_path arguments
                    (existing @ [new_corpus_dir]) output_corpus_dir reproducers_dir max_time s))
       \<and> merge_control_file (snd (minimize_corpus_two_step D target_path arguments existing
                new_corpus_dir output_corpus_dir reproducers_dir max_time s))
           = merge_control_file s
       \<and> (\<forall>r. fst (minimize_corpus_two_step D target_path arguments existing new_corpus_dir
                output_corpus_dir reproducers_dir max_time s) = Inr r
              \<longrightarrow> dom (fr_stats r) = {''edge_coverage'', ''feature_coverage''})"
proof -
  let ?s0 = "logs_info ''Old version of libFuzzer is used. Using single step merge.'' s"
  have two: "minimize_corpus_two_step D target_path arguments existing new_corpus_dir
               output_corpus_dir reproducers_dir max_time s
             = minimize_corpus D target_path arguments (existing @ [new_corpus_dir])
                 output_corpus_dir reproducers_dir max_time ?s0"
    by (simp add: minimize_corpus_two_step_def assms)
  have mcf: "merge_control_file (snd (minimize_corpus D target_path arguments
                (existing @ [new_corpus_dir]) output_corpus_dir reproducers_dir max_time s))
             = merge_control_file s"
    using minimize_corpus_state(1) [of D target_path arguments "existing @ [new_corpus_dir]"
        output_corpus_dir reproducers_dir max_time s]
    by (metis prod.collapse)
  show ?thesis
    unfolding two
    by (simp add: minimize_corpus_logs_info mcf minimize_corpus_dom)
qed

theorem two_step_fallback_witness:
  "fst (minimize_corpus_two_step (demo_deps demo_merges_slow (demo_run [] 0) [])
          ''/bin/old_target'' [] [''/corpus''] ''/inputs/new'' ''/out'' None 600 demo_state)
     = fst (minimize_corpus (demo_deps demo_merges_slow (demo_run [] 0) [])
          ''/bin/old_target'' [] [''/corpus'', ''/inputs/new''] ''/out'' None 600 demo_state)
   \<and> length (merge_calls (snd (minimize_corpus_two_step
          (demo_deps demo_merges_slow (demo_run [] 0) [])
          ''/bin/old_target'' [] [''/corpus''] ''/inputs/new'' ''/out'' None 600 demo_state))) = 1"
proof -
  from two_step_fallback [OF demo_supported(2),
      of "demo_deps demo_merges_slow (demo_run [] 0) []" "[]" "[''/corpus'']"
         "''/inputs/new''" "''/out''" None 600]
  show ?thesis
    by (simp add: minimize_corpus_def Let_def demo_deps_def create_temp_dir_def
        logs_info_def logs_error_def demo_state_def split_beta)
qed

text \<open>
  Claim C3. When the two step merge returns on a target that supports multistep merge,
  both steps have returned, and the statistics of the result are made from theirs:
  \<^verbatim>\<open>initial_edge_coverage\<close> and \<^verbatim>\<open>initial_feature_coverage\<close> are the
  \<^verbatim>\<open>edge_coverage\<close> and \<^verbatim>\<open>feature_coverage\<close> of the first step (the merge of the
  existing directories), \<^verbatim>\<open>edge_coverage\<close> and \<^verbatim>\<open>feature_coverage\<close> are those of the
  second step (the merge with the new directory, under the time that is left),
  \<^verbatim>\<open>new_edges = edge_coverage - initial_edge_coverage\<close> and
  \<^verbatim>\<open>new_features = feature_coverage - initial_feature_coverage\<close>, unless one of the two
  differences is negative, and then both are zero; so neither is negative.
\<close>

theorem two_step_new_coverage:
  assumes sup: "is_multistep_merge_supported target_path (world s) = Inr True"
    and ret: "minimize_corpus_two_step D target_path arguments existing new_corpus_dir
           output_corpus_dir reproducers_dir max_time s = (Inr r, s')"
  shows "\<exists>result_1 s2 result_2 s4 initial_edge initial_feature edge feature.
           minimize_corpus D target_path arguments existing output_corpus_dir reproducers_dir
             max_time (allocate_merge_control_file D s) = (Inr result_1, s2)
         \<and> minimize_corpus D target_path arguments (existing @ [new_corpus_dir])
             output_corpus_dir reproducers_dir (max_time - fr_time_executed result_1)
             (s2\<lparr>world := recreate_directory output_corpus_dir (world s2)\<rparr>)
             = (Inr result_2, s4)
         \<and> fr_stats result_1 ''edge_coverage'' = Some initial_edge
         \<and> fr_stats result_1 ''feature_coverage'' = Some initial_feature
         \<and> fr_stats result_2 ''edge_coverage'' = Some edge
         \<and> fr_stats result_2 ''feature_coverage'' = Some feature
         \<and> fr_stats r ''initial_edge_coverage'' = Some initial_edge
         \<and> fr_stats r ''initial_feature_coverage'' = Some initial_feature
         \<and> fr_stats r ''edge_coverage'' = Some edge
         \<and> fr_stats r ''feature_coverage'' = Some feature
         \<and> fr_stats r ''new_edges'' =
             Some (if edge - initial_edge < 0 \<or> feature - initial_feature < 0 then 0
                   else edge - initial_edge)
         \<and> fr_stats r ''new_features'' =
             Some (if edge - initial_edge < 0 \<or> feature - initial_feature < 0 then 0
                   else feature - initial_feature)
         \<and> 0 \<le> the (fr_stats r ''new_edges'')
         \<and> 0 \<le> the (fr_stats r ''new_features'')"
proof -
  let ?s1 = "allocate_merge_control_file D s"
  obtain r1 s2 where m1:
    "minimize_corpus D target_path arguments existing output_corpus_dir reproducers_dir
       max_time ?s1 = (r1, s2)"
    by (rule prod.exhaust)
  from ret m1 obtain result_1 where r1: "r1 = Inr result_1"
    unfolding two_step_supported [OF sup] by (cases r1) simp_all
  let ?s3 = "s2\<lparr>world := recreate_directory output_corpus_dir (world s2)\<rparr>"
  let ?t = "max_time - fr_time_executed result_1"
  from ret m1 r1 have left: "\<not> ?t \<le> 0"
    unfolding two_step_supported [OF sup] by (auto simp: Let_def)
  obtain r2 s4 where m2:
    "minimize_corpus D target_path arguments (existing @ [new_corpus_dir])
       output_corpus_dir reproducers_dir ?t ?s3 = (r2, s4)"
    by (rule prod.exhaust)
  from ret m1 r1 left m2 obtain result_2 where r2: "r2 = Inr result_2"
    unfolding two_step_supported [OF sup] by (cases r2) (simp_all add: Let_def)
  let ?ie = "the (fr_stats result_1 ''edge_coverage'')"
  let ?if = "the (fr_stats result_1 ''feature_coverage'')"
  let ?e = "the (fr_stats result_2 ''edge_coverage'')"
  let ?f = "the (fr_stats result_2 ''feature_coverage'')"
  have st1: "fr_stats result_1 ''edge_coverage'' = Some ?ie"
    "fr_stats result_1 ''feature_coverage'' = Some ?if"
    using minimize_corpus_subscript [OF m1 [unfolded r1]]
    by (auto simp: subscript_def split: option.splits)
  have st2: "fr_stats result_2 ''edge_coverage'' = Some ?e"
    "fr_stats result_2 ''feature_coverage'' = Some ?f"
    using minimize_corpus_subscript [OF m2 [unfolded r2]]
    by (auto simp: subscript_def split: option.splits)
  from ret m1 r1 left m2 r2
  have r: "fr_stats r = snd (two_step_stats ?ie ?if ?e ?f)"
    unfolding two_step_supported [OF sup] by (auto simp: Let_def split_beta)
  have stats: "fr_stats r ''initial_edge_coverage'' = Some ?ie"
    "fr_stats r ''initial_feature_coverage'' = Some ?if"
    "fr_stats r ''edge_coverage'' = Some ?e"
    "fr_stats r ''feature_coverage'' = Some ?f"
    "fr_stats r ''new_edges'' = Some (if ?e - ?ie < 0 \<or> ?f - ?if < 0 then 0 else ?e - ?ie)"
    "fr_stats r ''new_features'' = Some (if ?e - ?ie < 0 \<or> ?f - ?if < 0 then 0 else ?f - ?if)"
    unfolding r by (simp_all add: two_step_stats_def Let_def)
  have pos: "0 \<le> the (fr_stats r ''new_edges'')" "0 \<le> the (fr_stats r ''new_features'')"
    unfolding stats by simp_all
  from m1 [unfolded r1] m2 [unfolded r2] st1 st2 stats pos show ?thesis
    by blast
qed

theorem two_step_new_coverage_witness:
  "\<exists>r s' result_1 s2 result_2 s4.
       minimize_corpus_two_step (demo_deps demo_merges_shrinking (demo_run [] 0) [])
            ''/bin/target'' [] [''/corpus''] ''/inputs/new'' ''/out'' None 600 demo_state
          = (Inr r, s')
     \<and> minimize_corpus (demo_deps demo_merges_shrinking (demo_run [] 0) [])
            ''/bin/target'' [] [''/corpus''] ''/out'' None 600
            (allocate_merge_control_file (demo_deps demo_merges_shrinking (demo_run [] 0) [])
               demo_state)
          = (Inr result_1, s2)
     \<and> minimize_corpus (demo_deps demo_merges_shrinking (demo_run [] 0) [])
            ''/bin/target'' [] [''/corpus'', ''/inputs/new''] ''/out'' None
            (600 - fr_time_executed result_1)
            (s2\<lparr>world := recreate_directory ''/out'' (world s2)\<rparr>)
          = (Inr result_2, s4)
     \<and> fr_stats result_1 ''edge_coverage'' = Some 3
     \<and> fr_stats result_2 ''edge_coverage'' = Some 1
     \<and> fr_stats r ''initial_edge_coverage'' = Some 3
     \<and> fr_stats r ''edge_coverage'' = Some 1
     \<and> fr_stats r ''new_edges'' = Some 0
     \<and> fr_stats r ''new_features'' = Some 0
     \<and> 0 \<le> the (fr_stats r ''new_edges'')
     \<and> 0 \<le> the (fr_stats r ''new_features'')"
proof -
  let ?D = "demo_deps demo_merges_shrinking (demo_run [] 0) []"
  let ?two = "minimize_corpus_two_step ?D ''/bin/target'' [] [''/corpus''] ''/inputs/new''
                ''/out'' None 600 demo_state"
  let ?r = "\<lparr>fr_logs = [CHR ''a'', CHR 0x0A, CHR ''b'', CHR 0x0A, CHR ''c'', CHR 0x0A,
                          CHR 0x0A, CHR ''a''],
              fr_command = [''/bin/target''], fr_crashes = [],
              fr_stats = [''initial_edge_coverage'' \<mapsto> 3, ''initial_feature_coverage'' \<mapsto> 3,
                          ''edge_coverage'' \<mapsto> 1, ''feature_coverage'' \<mapsto> 1,
                          ''new_edges'' \<mapsto> 0, ''new_features'' \<mapsto> (0::int)],
              fr_time_executed = 10, fr_timed_out = None\<rparr>"
  have "fst ?two = Inr ?r"
    by (simp add: two_step_supported [OF demo_supported(1)]) (simp add: demo_eval)
  then have ret: "?two = (Inr ?r, snd ?two)"
    by (metis prod.collapse)
  from two_step_new_coverage [OF demo_supported(1) ret]
  obtain result_1 s2 result_2 s4 initial_edge initial_feature edge feature where
    m1: "minimize_corpus ?D ''/bin/target'' [] [''/corpus''] ''/out'' None 600
           (allocate_merge_control_file ?D demo_state) = (Inr result_1, s2)"
    and m2: "minimize_corpus ?D ''/bin/target'' [] ([''/corpus''] @ [''/inputs/new'']) ''/out''
           None (600 - fr_time_executed result_1)
           (s2\<lparr>world := recreate_directory ''/out'' (world s2)\<rparr>) = (Inr result_2, s4)"
    and st: "fr_stats result_1 ''edge_coverage'' = Some initial_edge"
      "fr_stats result_2 ''edge_coverage'' = Some edge"
      "fr_stats ?r ''initial_edge_coverage'' = Some initial_edge"
      "fr_stats ?r ''edge_coverage'' = Some edge"
    and pos: "0 \<le> the (fr_stats ?r ''new_edges'')" "0 \<le> the (fr_stats ?r ''new_features'')"
    by blast
  from st(3,4) have "initial_edge = 3" "edge = 1"
    by simp_all
  with st(1,2) have tie: "fr_stats result_1 ''edge_coverage'' = Some 3"
    "fr_stats result_2 ''edge_coverage'' = Some 1"
    by simp_all
  from m2 have m2': "minimize_corpus ?D ''/bin/target'' [] [''/corpus'', ''/inputs/new'']
           ''/out'' None (600 - fr_time_executed result_1)
           (s2\<lparr>world := recreate_directory ''/out'' (world s2)\<rparr>) = (Inr result_2, s4)"
    by simp
  have own: "fr_stats ?r ''initial_edge_coverage'' = Some 3"
    "fr_stats ?r ''edge_coverage'' = Some 1"
    "fr_stats ?r ''new_edges'' = Some 0"
    "fr_stats ?r ''new_features'' = Some 0"
    by simp_all
  from ret m1 m2' tie own pos show ?thesis
    by blast
qed

text \<open>
  Claim C2. On a target that supports multistep merge, when the first step returns a
  result whose time is at least \<open>max_time\<close>, the two step merge raises
  \<^verbatim>\<open>TimeoutError\<close> and the runner has merged once only: the second step is not
  started. (When the first step raises, its error is the error of the two step merge and
  the second step is not started either: \<open>two_step_step_1_error\<close>.)
\<close>

theorem two_step_budget_guard:
  assumes "is_multistep_merge_supported target_path (world s) = Inr True"
    and "minimize_corpus D target_path arguments existing output_corpus_dir reproducers_dir
           max_time (allocate_merge_control_file D s) = (Inr result_1, s2)"
    and "max_time \<le> fr_time_executed result_1"
  shows "fst (minimize_corpus_two_step D target_path arguments existing new_corpus_dir
                output_corpus_dir reproducers_dir max_time s) = Inl TimeoutError
       \<and> merge_calls (snd (minimize_corpus_two_step D target_path arguments existing
                new_corpus_dir output_corpus_dir reproducers_dir max_time s)) = merge_calls s2
       \<and> length (merge_calls (snd (minimize_corpus_two_step D target_path arguments existing
                new_corpus_dir output_corpus_dir reproducers_dir max_time s)))
           = Suc (length (merge_calls s))"
proof -
  from minimize_corpus_state(2) [OF assms(2)]
  have "length (merge_calls s2) = Suc (length (merge_calls s))"
    by auto
  with assms(2,3) show ?thesis
    unfolding two_step_supported [OF assms(1)]
    by (simp add: Let_def logs_error_def)
qed

theorem two_step_budget_guard_witness:
  "fst (minimize_corpus_two_step (demo_deps demo_merges_slow (demo_run [] 0) [])
          ''/bin/target'' [] [''/corpus''] ''/inputs/new'' ''/out'' None 600 demo_state)
     = Inl TimeoutError
   \<and> length (merge_calls (snd (minimize_corpus_two_step
          (demo_deps demo_merges_slow (demo_run [] 0) [])
          ''/bin/target'' [] [''/corpus''] ''/inputs/new'' ''/out'' None 600 demo_state))) = 1"
proof -
  let ?D = "demo_deps demo_merges_slow (demo_run [] 0) []"
  let ?m1 = "minimize_corpus ?D ''/bin/target'' [] [''/corpus''] ''/out'' None 600
               (allocate_merge_control_file ?D demo_state)"
  let ?r1 = "\<lparr>fr_logs = ''a'', fr_command = [''/bin/target''], fr_crashes = [],
               fr_stats = merge_log_stats (1, 1),
               fr_time_executed = 600, fr_timed_out = None\<rparr>"
  have "fst ?m1 = Inr ?r1"
    by (simp add: minimize_corpus_def Let_def demo_deps_def demo_run_def create_temp_dir_def
        demo_merges_slow_def splitlines_def is_linebreak_def split_beta)
  then have m1: "?m1 = (Inr ?r1, snd ?m1)"
    by (metis prod.collapse)
  have le: "600 \<le> fr_time_executed ?r1"
    by simp
  note guard = two_step_budget_guard [OF demo_supported(1) m1 le,
      where new_corpus_dir = "''/inputs/new''"]
  from guard [THEN conjunct1] guard [THEN conjunct2, THEN conjunct2]
  show ?thesis
    by (simp add: demo_state_def)
qed

lemma two_step_step_1_error:
  assumes "is_multistep_merge_supported target_path (world s) = Inr True"
    and "minimize_corpus D target_path arguments existing output_corpus_dir reproducers_dir
           max_time (allocate_merge_control_file D s) = (Inl e, s2)"
  shows "minimize_corpus_two_step D target_path arguments existing new_corpus_dir
           output_corpus_dir reproducers_dir max_time s = (Inl e, s2)"
    and "length (merge_calls s2) = Suc (length (merge_calls s))"
    and "merge_control_file s2 = merge_control_file (allocate_merge_control_file D s)"
  using assms(2) minimize_corpus_state [OF assms(2)]
  unfolding two_step_supported [OF assms(1)]
  by auto

lemma two_step_merge_control_file_on_return:
  assumes "is_multistep_merge_supported target_path (world s) = Inr True"
    and "minimize_corpus_two_step D target_path arguments existing new_corpus_dir
           output_corpus_dir reproducers_dir max_time s = (Inr r, s')"
  shows "merge_control_file s' = None"
    and "\<exists>c1 c2. merge_calls s' = merge_calls s @ [c1, c2]
           \<and> mc_merge_control_file c1 = merge_control_file (allocate_merge_control_file D s)
           \<and> mc_merge_control_file c2 = merge_control_file (allocate_merge_control_file D s)"
proof -
  let ?s1 = "allocate_merge_control_file D s"
  from assms(2) obtain result_1 s2 result_2 s4 where
    m1: "minimize_corpus D target_path arguments existing output_corpus_dir reproducers_dir
           max_time ?s1 = (Inr result_1, s2)"
    and m2: "minimize_corpus D target_path arguments (existing @ [new_corpus_dir])
           output_corpus_dir reproducers_dir (max_time - fr_time_executed result_1)
           (s2\<lparr>world := recreate_directory output_corpus_dir (world s2)\<rparr>) = (Inr result_2, s4)"
    and s': "merge_control_file s' = None" "merge_calls s' = merge_calls s4"
    unfolding two_step_supported [OF assms(1)]
    by (auto simp: Let_def logs_error_def split: prod.splits sum.splits if_splits)
  show "merge_control_file s' = None" by (rule s')
  from minimize_corpus_state [OF m1] minimize_corpus_state [OF m2] s'
  show "\<exists>c1 c2. merge_calls s' = merge_calls s @ [c1, c2]
           \<and> mc_merge_control_file c1 = merge_control_file ?s1
           \<and> mc_merge_control_file c2 = merge_control_file ?s1"
    by auto
qed

text \<open>
  Claim C1. The two steps of a merge are given the same merge control file and a two
  step merge that returns leaves \<^verbatim>\<open>self._merge_control_file\<close> at \<^verbatim>\<open>None\<close>
  (\<open>two_step_merge_control_file_on_return\<close>). A two step merge that raises does not:
  here the first step times out, the path stays in \<^verbatim>\<open>self._merge_control_file\<close>, and
  the next call of \<^verbatim>\<open>minimize_corpus\<close> hands it to the runner.
\<close>

theorem two_step_keeps_merge_control_file_on_failure:
  "fst (minimize_corpus_two_step (demo_deps demo_merges_timed_out (demo_run [] 0) [])
          ''/bin/target'' [] [''/corpus''] ''/inputs/new'' ''/out'' None 600 demo_state)
     = Inl TimeoutError
   \<and> merge_control_file (snd (minimize_corpus_two_step
          (demo_deps demo_merges_timed_out (demo_run [] 0) [])
          ''/bin/target'' [] [''/corpus''] ''/inputs/new'' ''/out'' None 600 demo_state))
     = Some ''/inputs/mcf_tmp_dir/MCF''
   \<and> map mc_merge_control_file (merge_calls (snd (minimize_corpus
          (demo_deps demo_merges_slow (demo_run [] 0) [])
          ''/bin/target'' [] [''/corpus''] ''/out2'' None 600
          (snd (minimize_corpus_two_step
             (demo_deps demo_merges_timed_out (demo_run [] 0) [])
             ''/bin/target'' [] [''/corpus''] ''/inputs/new'' ''/out'' None 600 demo_state)))))
     = [Some ''/inputs/mcf_tmp_dir/MCF'', Some ''/inputs/mcf_tmp_dir/MCF'']"
  by (simp add: two_step_supported [OF demo_supported(1)]) (simp add: demo_eval split_beta)

subsection \<open>The fuzz session\<close>

lemma map_of_arguments_extend:
  "\<forall>a\<in>set args_list. \<forall>v. parse_flag a \<noteq> Some (k, v) \<Longrightarrow>
     map_of (arguments_extend flags args_list) k = map_of flags k"
proof (induction args_list arbitrary: flags)
  case Nil
  then show ?case by (simp add: arguments_extend_def)
next
  case (Cons a args_list)
  have ext: "arguments_extend flags (a # args_list) =
          arguments_extend (case parse_flag a of Some (k', v') \<Rightarrow> AList.update k' v' flags
                            | None \<Rightarrow> flags) args_list"
    by (simp add: arguments_extend_def)
  from Cons.prems have rest: "\<forall>a\<in>set args_list. \<forall>v. parse_flag a \<noteq> Some (k, v)"
    and here: "\<forall>v. parse_flag a \<noteq> Some (k, v)"
    by simp_all
  show ?case
    unfolding ext Cons.IH [OF rest]
    using here by (auto simp: update_conv' split: option.splits)
qed

lemma parse_flag_timeout:
  assumes "parse_flag a = Some (TIMEOUT_FLAGNAME, v)"
  shows "startswith a ''-timeout=''"
proof -
  from assms obtain rest where a: "a = CHR ''-'' # rest"
    and mem: "CHR ''='' \<in> set rest"
    and name: "takeWhile (\<lambda>x. x \<noteq> CHR ''='') rest = ''timeout''"
    by (auto simp: parse_flag_def TIMEOUT_FLAGNAME_def split: list.splits if_splits)
  from mem have "dropWhile (\<lambda>x. x \<noteq> CHR ''='') rest \<noteq> []"
    by (simp add: dropWhile_eq_Nil_conv)
  then obtain xs where d: "dropWhile (\<lambda>x. x \<noteq> CHR ''='') rest = CHR ''='' # xs"
    using hd_dropWhile [of "\<lambda>x. x \<noteq> CHR ''=''" rest]
    by (cases "dropWhile (\<lambda>x. x \<noteq> CHR ''='') rest") auto
  have "rest = takeWhile (\<lambda>x. x \<noteq> CHR ''='') rest @ dropWhile (\<lambda>x. x \<noteq> CHR ''='') rest"
    by simp
  then have "rest = ''timeout'' @ CHR ''='' # xs"
    unfolding name d .
  then show ?thesis
    by (simp add: a)
qed

lemma no_timeout_flag:
  assumes "\<forall>a\<in>set args_list. \<not> startswith a ''-timeout=''"
  shows "get_timeout_limit (from_list args_list) = Inr None"
proof -
  from assms have "\<forall>a\<in>set args_list. \<forall>v. parse_flag a \<noteq> Some (TIMEOUT_FLAGNAME, v)"
    using parse_flag_timeout by blast
  then have "map_of (from_list args_list) TIMEOUT_FLAGNAME = None"
    unfolding from_list_def by (simp add: map_of_arguments_extend)
  then show ?thesis
    by (simp add: get_timeout_limit_def)
qed

lemma create_empty_testcase_file_path:
  "fst (create_empty_testcase_file D reproducers_dir w) \<noteq> []"
  "fst (create_empty_testcase_file D reproducers_dir w)
     = os_path_join reproducers_dir (''tmp'' @ mkstemp_suffix D w)"
  "\<exists>names. fs (snd (create_empty_testcase_file D reproducers_dir w)) reproducers_dir
     = Some (Dir (names @ [''tmp'' @ mkstemp_suffix D w]))"
  by (simp_all add: create_empty_testcase_file_def Let_def os_path_join_def)

lemma fuzz_run_context:
  assumes start: "start_fuzzer D target_path options reproducers_dir max_time (world s)
                    = (new_corpus_dir, fuzz_result, w2)"
    and run: "fuzz_run D target_path options reproducers_dir max_time s = (Inr cx, s1)"
  shows "fx_new_corpus_dir cx = new_corpus_dir"
    and "fx_fuzz_result cx = fuzz_result"
    and "fx_log_lines cx = splitlines (output_text fuzz_result)"
    and "fx_actual_duration cx = py_int (time_executed fuzz_result)"
    and "max_time \<noteq> 0"
    and "merge_calls s1 = merge_calls s"
    and "merge_control_file s1 = merge_control_file s"
  using run unfolding fuzz_run_def start
  by (auto simp: Let_def logs_error_def split: sum.splits if_splits prod.splits)

lemma fuzz_run_crash_path:
  assumes start: "start_fuzzer D target_path options reproducers_dir max_time (world s)
                    = (new_corpus_dir, fuzz_result, w2)"
    and run: "fuzz_run D target_path options reproducers_dir max_time s = (Inr cx, s1)"
  shows "placeholder_needed D target_path fuzz_result \<Longrightarrow>
           fx_crash_testcase_file_path cx
             = Some (fst (create_empty_testcase_file D reproducers_dir w2))
         \<and> world s1 = snd (create_empty_testcase_file D reproducers_dir w2)"
    and "\<not> placeholder_needed D target_path fuzz_result \<Longrightarrow>
           fx_crash_testcase_file_path cx
             = get_testcase_path D target_path (splitlines (output_text fuzz_result))
         \<and> world s1 = w2"
  using run unfolding fuzz_run_def start placeholder_needed_def
  by (auto simp: Let_def logs_error_def split: sum.splits if_splits prod.splits)

lemma fuzz_run_stats:
  assumes start: "start_fuzzer D target_path options reproducers_dir max_time (world s)
                    = (new_corpus_dir, fuzz_result, w2)"
    and run: "fuzz_run D target_path options reproducers_dir max_time s = (Inr cx, s1)"
  shows "fx_parsed_stats cx ''timeout_limit'' \<noteq> None"
    and "get_timeout_limit (from_list (opt_arguments options)) = Inr None \<Longrightarrow>
           fx_parsed_stats cx ''timeout_limit'' = Some PyNone"
    and "fx_parsed_stats cx ''expected_duration'' = Some (PyInt (py_int max_time))"
    and "fx_parsed_stats cx ''actual_duration''
           = Some (PyInt (py_int (time_executed fuzz_result)))"
    and "fx_parsed_stats cx ''fuzzing_time_percent''
           = Some (PyFloat (100 * real_of_int (py_int (time_executed fuzz_result)) / max_time))"
  using run unfolding fuzz_run_def start
  by (auto simp: Let_def logs_error_def split: sum.splits if_splits prod.splits)

lemma two_step_dom:
  assumes "minimize_corpus_two_step D target_path arguments existing new_corpus_dir
             output_corpus_dir reproducers_dir max_time s = (Inr r, s')"
  shows "dom (fr_stats r) \<subseteq> {''initial_edge_coverage'', ''initial_feature_coverage'',
            ''edge_coverage'', ''feature_coverage'', ''new_edges'', ''new_features''}"
proof (cases "is_multistep_merge_supported target_path (world s)")
  case (Inl e)
  with assms show ?thesis by (simp add: minimize_corpus_two_step_def)
next
  case (Inr b)
  show ?thesis
  proof (cases b)
    case True
    with Inr have sup: "is_multistep_merge_supported target_path (world s) = Inr True" by simp
    from assms show ?thesis
      unfolding two_step_supported [OF sup]
      by (auto simp: Let_def two_step_stats_def split: prod.splits sum.splits if_splits)
  next
    case False
    with Inr assms have "fst (minimize_corpus D target_path arguments (existing @ [new_corpus_dir])
                           output_corpus_dir reproducers_dir max_time
                           (logs_info ''Old version of libFuzzer is used. Using single step merge.'' s))
                         = Inr r"
      by (simp add: minimize_corpus_two_step_def)
    from minimize_corpus_dom [OF this] show ?thesis by simp
  qed
qed

lemma two_step_error:
  assumes "minimize_corpus_two_step D target_path arguments existing new_corpus_dir
             output_corpus_dir reproducers_dir max_time s = (Inl e, s')"
  shows "e = MergeError \<or> e = TimeoutError \<or> e = IsADirectoryError"
proof (cases "is_multistep_merge_supported target_path (world s)")
  case (Inl e')
  with assms show ?thesis
    by (auto simp: minimize_corpus_two_step_def is_multistep_merge_supported_def
        split: if_splits option.splits node.splits)
next
  case (Inr b)
  show ?thesis
  proof (cases b)
    case True
    with Inr have sup: "is_multistep_merge_supported target_path (world s) = Inr True" by simp
    from assms show ?thesis
      unfolding two_step_supported [OF sup]
      by (auto simp: Let_def split: prod.splits sum.splits if_splits
          dest: minimize_corpus_error)
  next
    case False
    with Inr assms show ?thesis
      by (auto simp: minimize_corpus_two_step_def dest: minimize_corpus_error)
  qed
qed

lemma record_new_units_stats:
  "fst (record_new_units n stat_overrides s) = stat_overrides(''new_units_added'' \<mapsto> PyInt n)"
  "world (snd (record_new_units n stat_overrides s)) = world s"
  "merge_calls (snd (record_new_units n stat_overrides s)) = merge_calls s"
  "set (logged s) \<subseteq> set (logged (snd (record_new_units n stat_overrides s)))"
  by (auto simp: record_new_units_def Let_def logs_info_def)

text \<open>
  \<^verbatim>\<open>_merge_new_units\<close> when there are new units, in terms of what its two step merge
  returns.
\<close>

lemma merge_new_units_unfold:
  assumes nz: "get_directory_file_count new_corpus_dir (world s) \<noteq> 0"
    and two: "minimize_corpus_two_step D target_path arguments
                (if corpus_dir \<in> set fuzz_corpus_dirs then fuzz_corpus_dirs
                 else fuzz_corpus_dirs @ [corpus_dir])
                new_corpus_dir (fst (create_merge_corpus_dir D (world s))) None
                (get_merge_timeout D)
                (s\<lparr>world := snd (create_merge_corpus_dir D (world s))\<rparr>) = (res, s2)"
  shows "merge_new_units D target_path corpus_dir new_corpus_dir fuzz_corpus_dirs
           arguments stat_overrides s =
     (case res of
        Inr result \<Rightarrow>
          (let w3 = move_mergeable_units D (fst (create_merge_corpus_dir D (world s)))
                      corpus_dir (world s2);
               n = int (get_directory_file_count corpus_dir w3)
                     - int (get_directory_file_count corpus_dir
                              (snd (create_merge_corpus_dir D (world s))));
               so = stat_overrides ++ (map_option PyInt \<circ> fr_stats result)
           in (Inr (fst (record_new_units n so (s2\<lparr>world := w3\<rparr>))),
               snd (record_new_units n so (s2\<lparr>world := w3\<rparr>))))
      | Inl e \<Rightarrow>
          (if e = MergeError \<or> e = TimeoutError then
             (Inr (fst (record_new_units 0 stat_overrides (logs_warning ''Merge failed.'' s2))),
              snd (record_new_units 0 stat_overrides (logs_warning ''Merge failed.'' s2)))
           else (Inl e, s2)))"
proof (cases "corpus_dir \<in> set fuzz_corpus_dirs")
  case True
  with two have two': "minimize_corpus_two_step D target_path arguments fuzz_corpus_dirs
                new_corpus_dir (fst (create_merge_corpus_dir D (world s))) None
                (get_merge_timeout D)
                (s\<lparr>world := snd (create_merge_corpus_dir D (world s))\<rparr>) = (res, s2)"
    by simp
  show ?thesis
    unfolding merge_new_units_def Let_def split_beta
    using nz True by (simp add: two' split: sum.splits)
next
  case False
  with two have two': "minimize_corpus_two_step D target_path arguments
                (fuzz_corpus_dirs @ [corpus_dir])
                new_corpus_dir (fst (create_merge_corpus_dir D (world s))) None
                (get_merge_timeout D)
                (s\<lparr>world := snd (create_merge_corpus_dir D (world s))\<rparr>) = (res, s2)"
    by simp
  show ?thesis
    unfolding merge_new_units_def Let_def split_beta
    using nz False by (simp add: two' split: sum.splits)
qed

lemma merge_new_units_failure:
  assumes nz: "get_directory_file_count new_corpus_dir (world s) \<noteq> 0"
    and two: "minimize_corpus_two_step D target_path arguments
                (if corpus_dir \<in> set fuzz_corpus_dirs then fuzz_corpus_dirs
                 else fuzz_corpus_dirs @ [corpus_dir])
                new_corpus_dir (fst (create_merge_corpus_dir D (world s))) None
                (get_merge_timeout D)
                (s\<lparr>world := snd (create_merge_corpus_dir D (world s))\<rparr>) = (Inl e, s2)"
    and e: "e = MergeError \<or> e = TimeoutError"
  shows "fst (merge_new_units D target_path corpus_dir new_corpus_dir fuzz_corpus_dirs
                arguments stat_overrides s)
           = Inr (stat_overrides(''new_units_added'' \<mapsto> PyInt 0))"
    and "(Warning, ''Merge failed.'') \<in> set (logged (snd (merge_new_units D target_path
                corpus_dir new_corpus_dir fuzz_corpus_dirs arguments stat_overrides s)))"
proof -
  note m = merge_new_units_unfold [OF nz two]
  show "fst (merge_new_units D target_path corpus_dir new_corpus_dir fuzz_corpus_dirs
                arguments stat_overrides s)
           = Inr (stat_overrides(''new_units_added'' \<mapsto> PyInt 0))"
    unfolding m using e by (auto simp: record_new_units_stats(1))
  have "(Warning, ''Merge failed.'') \<in> set (logged (logs_warning ''Merge failed.'' s2))"
    by (simp add: logs_warning_def)
  with record_new_units_stats(4) [of "logs_warning ''Merge failed.'' s2" 0 stat_overrides]
  have "(Warning, ''Merge failed.'') \<in> set (logged (snd (record_new_units 0 stat_overrides
           (logs_warning ''Merge failed.'' s2))))"
    by blast
  then show "(Warning, ''Merge failed.'') \<in> set (logged (snd (merge_new_units D target_path
                corpus_dir new_corpus_dir fuzz_corpus_dirs arguments stat_overrides s)))"
    unfolding m using e by auto
qed

lemma merge_new_units_error:
  assumes "merge_new_units D target_path corpus_dir new_corpus_dir fuzz_corpus_dirs
             arguments stat_overrides s = (Inl e, s')"
  shows "e = IsADirectoryError"
proof (cases "get_directory_file_count new_corpus_dir (world s) = 0")
  case True
  with assms show ?thesis
    by (simp add: merge_new_units_def)
next
  case False
  obtain res s2 where two: "minimize_corpus_two_step D target_path arguments
                (if corpus_dir \<in> set fuzz_corpus_dirs then fuzz_corpus_dirs
                 else fuzz_corpus_dirs @ [corpus_dir])
                new_corpus_dir (fst (create_merge_corpus_dir D (world s))) None
                (get_merge_timeout D)
                (s\<lparr>world := snd (create_merge_corpus_dir D (world s))\<rparr>) = (res, s2)"
    by (rule prod.exhaust)
  note m = assms [unfolded merge_new_units_unfold [OF False two]]
  show ?thesis
  proof (cases res)
    case (Inl e')
    from two_step_error [OF two [unfolded Inl]] m Inl show ?thesis
      by (auto split: if_splits)
  next
    case (Inr result)
    with m show ?thesis
      by (simp add: Let_def)
  qed
qed

lemma merge_new_units_keeps:
  assumes "merge_new_units D target_path corpus_dir new_corpus_dir fuzz_corpus_dirs
             arguments stat_overrides s = (Inr stats', s')"
    and "k \<notin> {''new_units_added'', ''initial_edge_coverage'', ''initial_feature_coverage'',
            ''edge_coverage'', ''feature_coverage'', ''new_edges'', ''new_features''}"
  shows "stats' k = stat_overrides k"
proof (cases "get_directory_file_count new_corpus_dir (world s) = 0")
  case True
  with assms show ?thesis
    by (auto simp: merge_new_units_def)
next
  case False
  obtain res s2 where two: "minimize_corpus_two_step D target_path arguments
                (if corpus_dir \<in> set fuzz_corpus_dirs then fuzz_corpus_dirs
                 else fuzz_corpus_dirs @ [corpus_dir])
                new_corpus_dir (fst (create_merge_corpus_dir D (world s))) None
                (get_merge_timeout D)
                (s\<lparr>world := snd (create_merge_corpus_dir D (world s))\<rparr>) = (res, s2)"
    by (rule prod.exhaust)
  note m = assms(1) [unfolded merge_new_units_unfold [OF False two]]
  from assms(2) have k: "k \<noteq> ''new_units_added''" by simp
  show ?thesis
  proof (cases res)
    case (Inl e)
    with m have "stats' = stat_overrides(''new_units_added'' \<mapsto> PyInt 0)"
      by (simp add: record_new_units_stats(1) split: if_splits)
    then show ?thesis by (simp only: fun_upd_other [OF k])
  next
    case (Inr result)
    from assms(2) have "k \<notin> {''initial_edge_coverage'', ''initial_feature_coverage'',
            ''edge_coverage'', ''feature_coverage'', ''new_edges'', ''new_features''}"
      by simp
    with two_step_dom [OF two [unfolded Inr]] have "k \<notin> dom (fr_stats result)"
      by (rule contra_subsetD)
    then have none: "fr_stats result k = None"
      by (simp only: domIff not_not)
    from m Inr obtain n where
      "stats' = (stat_overrides ++ (map_option PyInt \<circ> fr_stats result))
                  (''new_units_added'' \<mapsto> PyInt n)"
      by (auto simp: Let_def record_new_units_stats(1))
    then have "stats' k = (stat_overrides ++ (map_option PyInt \<circ> fr_stats result)) k"
      by (simp only: fun_upd_other [OF k])
    also have "\<dots> = stat_overrides k"
      using none by (simp add: map_add_def)
    finally show ?thesis .
  qed
qed

lemma int_of_str_error:
  "int_of_str v = Inl e \<Longrightarrow> e = ValueError"
  by (auto simp: int_of_str_def Let_def split: prod.splits if_splits)

lemma fuzz_run_error:
  assumes "fuzz_run D target_path options reproducers_dir max_time s = (Inl e, s1)"
  shows "e = ValueError \<or> e = ZeroDivisionError"
  using assms
  by (auto simp: fuzz_run_def Let_def get_timeout_limit_def split_beta
      split: sum.splits if_splits option.splits dest: int_of_str_error)

text \<open>
  A fuzz session raises for a malformed \<^verbatim>\<open>-timeout\<close> flag, for a time limit of zero
  and for a target that is a directory; it never raises the errors of a merge.
\<close>

lemma fuzz_never_raises_merge_errors:
  "fst (fuzz D target_path options reproducers_dir max_time s) \<noteq> Inl MergeError"
  "fst (fuzz D target_path options reproducers_dir max_time s) \<noteq> Inl TimeoutError"
proof -
  obtain res s1 where run:
    "fuzz_run D target_path options reproducers_dir max_time s = (res, s1)"
    by (rule prod.exhaust)
  have "fst (fuzz D target_path options reproducers_dir max_time s) \<noteq> Inl MergeError
      \<and> fst (fuzz D target_path options reproducers_dir max_time s) \<noteq> Inl TimeoutError"
  proof (cases res)
    case (Inl e)
    with fuzz_run_error [OF run [unfolded Inl]] run show ?thesis
      by (auto simp: fuzz_def)
  next
    case (Inr cx)
    show ?thesis
    proof (cases "fx_new_corpus_dir cx")
      case None
      with run Inr show ?thesis by (simp add: fuzz_def)
    next
      case (Some new_corpus_dir)
      obtain mres s2 where m:
        "merge_new_units D target_path (opt_corpus_dir options) new_corpus_dir
           (opt_fuzz_corpus_dirs options) (fx_non_fuzz_arguments cx) (fx_parsed_stats cx) s1
         = (mres, s2)"
        by (rule prod.exhaust)
      show ?thesis
      proof (cases mres)
        case (Inl e)
        with merge_new_units_error [OF m [unfolded Inl]] run Inr Some m show ?thesis
          by (simp add: fuzz_def)
      next
        case mr: (Inr stats')
        with run Inr Some m show ?thesis
          by (simp add: fuzz_def)
      qed
    qed
  qed
  then show "fst (fuzz D target_path options reproducers_dir max_time s) \<noteq> Inl MergeError"
    and "fst (fuzz D target_path options reproducers_dir max_time s) \<noteq> Inl TimeoutError"
    by simp_all
qed

lemma fuzz_result_cases:
  assumes ret: "fuzz D target_path options reproducers_dir max_time s = (Inr r, s')"
  obtains cx s1 stats' where
    "fuzz_run D target_path options reproducers_dir max_time s = (Inr cx, s1)"
    "r = fuzz_finish D options cx stats'"
    "\<And>k. k \<notin> {''new_units_added'', ''initial_edge_coverage'', ''initial_feature_coverage'',
            ''edge_coverage'', ''feature_coverage'', ''new_edges'', ''new_features''}
       \<Longrightarrow> stats' k = fx_parsed_stats cx k"
proof -
  obtain res s1 where run:
    "fuzz_run D target_path options reproducers_dir max_time s = (res, s1)"
    by (rule prod.exhaust)
  show thesis
  proof (cases res)
    case (Inl e)
    with run ret show thesis by (simp add: fuzz_def)
  next
    case (Inr cx)
    show thesis
    proof (cases "fx_new_corpus_dir cx")
      case None
      with run Inr ret have "r = fuzz_finish D options cx (fx_parsed_stats cx)"
        by (simp add: fuzz_def)
      with run Inr that show thesis by blast
    next
      case (Some new_corpus_dir)
      obtain mres s2 where m:
        "merge_new_units D target_path (opt_corpus_dir options) new_corpus_dir
           (opt_fuzz_corpus_dirs options) (fx_non_fuzz_arguments cx) (fx_parsed_stats cx) s1
         = (mres, s2)"
        by (rule prod.exhaust)
      show thesis
      proof (cases mres)
        case (Inl e)
        with run Inr Some m ret show thesis by (simp add: fuzz_def)
      next
        case mr: (Inr stats')
        with run Inr Some m ret have r: "r = fuzz_finish D options cx stats'"
          by (simp add: fuzz_def)
        from merge_new_units_keeps [OF m [unfolded mr]] r run Inr that show thesis
          by blast
      qed
    qed
  qed
qed

lemma fuzz_finish_fields:
  "fr_stats (fuzz_finish D options cx stats') = stats'"
  "map crash_input_path (fr_crashes (fuzz_finish D options cx stats'))
     = (case fx_crash_testcase_file_path cx of
          None \<Rightarrow> [] | Some p \<Rightarrow> if p \<noteq> [] then [p] else [])"
  by (simp_all add: fuzz_finish_def Let_def split: option.splits)

lemma fuzz_run_returns:
  assumes "max_time \<noteq> 0"
    and "get_timeout_limit (from_list (opt_arguments options)) = Inr timeout_limit"
  shows "\<exists>cx s1. fuzz_run D target_path options reproducers_dir max_time s = (Inr cx, s1)"
  using assms by (simp add: fuzz_run_def Let_def split_beta)

lemma fuzz_returns_without_new_units:
  assumes run: "fuzz_run D target_path options reproducers_dir max_time s = (Inr cx, s1)"
    and new: "fx_new_corpus_dir cx = Some new_corpus_dir"
    and none: "get_directory_file_count new_corpus_dir (world s1) = 0"
  shows "\<exists>r s'. fuzz D target_path options reproducers_dir max_time s = (Inr r, s')"
  using new none by (simp add: fuzz_def run merge_new_units_def)

lemma demo_no_timeout_flag:
  "get_timeout_limit (from_list (opt_arguments demo_options)) = Inr None"
  by (rule no_timeout_flag) (simp add: demo_options_def)

lemma demo_start_fuzzer:
  "start_fuzzer (demo_deps merges fuzz_result new_units) ''/bin/target'' demo_options
     ''/repro'' 60 (world demo_state)
   = (Some ''/inputs/new'', fuzz_result,
      demo_world\<lparr>fs := (fs demo_world)(''/inputs/new'' \<mapsto> Dir new_units)\<rparr>)"
  by (simp add: start_fuzzer_def Let_def demo_deps_def demo_options_def demo_state_def
      create_temp_fuzzing_dir_def recreate_directory_def os_path_join_def)

lemma demo_placeholder:
  "placeholder_needed (demo_deps merges demo_fuzz_startup_crash new_units) ''/bin/target''
     demo_fuzz_startup_crash"
  "\<not> placeholder_needed (demo_deps merges demo_fuzz_ok new_units) ''/bin/target'' demo_fuzz_ok"
  by (simp_all add: placeholder_needed_def demo_deps_def demo_fuzz_startup_crash_def
      demo_fuzz_ok_def demo_run_def splitlines_def is_linebreak_def truthy_def
      fuzz_output_contains_trusty_kernel_panic_def)

text \<open>
  Claim C7. When the directory of the new units holds no file,
  \<^verbatim>\<open>_merge_new_units\<close> does not call the runner (the list of its merges and the world
  are what they were) and the statistics get \<^verbatim>\<open>new_units_added = 0\<close>.
\<close>

theorem merge_new_units_skips_empty:
  assumes "get_directory_file_count new_corpus_dir (world s) = 0"
  shows "fst (merge_new_units D target_path corpus_dir new_corpus_dir fuzz_corpus_dirs
                arguments stat_overrides s)
           = Inr (stat_overrides(''new_units_added'' \<mapsto> PyInt 0))
       \<and> merge_calls (snd (merge_new_units D target_path corpus_dir new_corpus_dir
                fuzz_corpus_dirs arguments stat_overrides s)) = merge_calls s
       \<and> world (snd (merge_new_units D target_path corpus_dir new_corpus_dir
                fuzz_corpus_dirs arguments stat_overrides s)) = world s"
  using assms by (simp add: merge_new_units_def logs_info_def)

theorem merge_new_units_skips_empty_witness:
  "fst (merge_new_units (demo_deps demo_merges_failed (demo_run [] 0) [])
          ''/bin/target'' ''/corpus'' ''/inputs/new'' [''/corpus''] [] Map.empty demo_state)
     = Inr [''new_units_added'' \<mapsto> PyInt 0]
   \<and> merge_calls (snd (merge_new_units (demo_deps demo_merges_failed (demo_run [] 0) [])
          ''/bin/target'' ''/corpus'' ''/inputs/new'' [''/corpus''] [] Map.empty demo_state))
     = []"
proof -
  have h: "get_directory_file_count ''/inputs/new'' (world demo_state) = 0"
    by (simp add: get_directory_file_count_def demo_state_def demo_world_def)
  from merge_new_units_skips_empty [OF h, of "demo_deps demo_merges_failed (demo_run [] 0) []"
      "''/bin/target''" "''/corpus''" "[''/corpus'']" "[]" Map.empty]
  show ?thesis
    by (simp add: demo_state_def)
qed

text \<open>
  Claim C6. When the two step merge that \<^verbatim>\<open>_merge_new_units\<close> starts in a fuzz session
  raises \<^verbatim>\<open>MergeError\<close> or \<^verbatim>\<open>TimeoutError\<close>, the session returns a result all the
  same: its statistics are those computed before the merge with
  \<^verbatim>\<open>new_units_added = 0\<close>, and the warning \<^verbatim>\<open>Merge failed.\<close> is in the log. (That no
  call of \<^verbatim>\<open>fuzz\<close> raises \<^verbatim>\<open>MergeError\<close> or \<^verbatim>\<open>TimeoutError\<close> is
  \<open>fuzz_never_raises_merge_errors\<close>.)
\<close>

theorem fuzz_merge_failure_is_caught:
  assumes run: "fuzz_run D target_path options reproducers_dir max_time s = (Inr cx, s1)"
    and new: "fx_new_corpus_dir cx = Some new_corpus_dir"
    and nz: "get_directory_file_count new_corpus_dir (world s1) \<noteq> 0"
    and two: "minimize_corpus_two_step D target_path (fx_non_fuzz_arguments cx)
                (if opt_corpus_dir options \<in> set (opt_fuzz_corpus_dirs options)
                 then opt_fuzz_corpus_dirs options
                 else opt_fuzz_corpus_dirs options @ [opt_corpus_dir options])
                new_corpus_dir (fst (create_merge_corpus_dir D (world s1))) None
                (get_merge_timeout D)
                (s1\<lparr>world := snd (create_merge_corpus_dir D (world s1))\<rparr>) = (Inl e, s2)"
    and e: "e = MergeError \<or> e = TimeoutError"
  shows "fst (fuzz D target_path options reproducers_dir max_time s)
           = Inr (fuzz_finish D options cx ((fx_parsed_stats cx)(''new_units_added'' \<mapsto> PyInt 0)))
       \<and> fr_stats (fuzz_finish D options cx
             ((fx_parsed_stats cx)(''new_units_added'' \<mapsto> PyInt 0))) ''new_units_added''
           = Some (PyInt 0)
       \<and> (Warning, ''Merge failed.'')
           \<in> set (logged (snd (fuzz D target_path options reproducers_dir max_time s)))"
proof -
  let ?m = "merge_new_units D target_path (opt_corpus_dir options) new_corpus_dir
              (opt_fuzz_corpus_dirs options) (fx_non_fuzz_arguments cx) (fx_parsed_stats cx) s1"
  note f = merge_new_units_failure [OF nz two e, of "fx_parsed_stats cx"]
  obtain s3 where m: "?m = (Inr ((fx_parsed_stats cx)(''new_units_added'' \<mapsto> PyInt 0)), s3)"
    using f(1) by (cases ?m) simp
  have fz: "fuzz D target_path options reproducers_dir max_time s
          = (Inr (fuzz_finish D options cx
                    ((fx_parsed_stats cx)(''new_units_added'' \<mapsto> PyInt 0))), s3)"
    unfolding fuzz_def run using new m by simp
  have st: "fr_stats (fuzz_finish D options cx
             ((fx_parsed_stats cx)(''new_units_added'' \<mapsto> PyInt 0))) ''new_units_added''
           = Some (PyInt 0)"
    by (simp add: fuzz_finish_def Let_def)
  from f(2) have "(Warning, ''Merge failed.'') \<in> set (logged s3)"
    unfolding m by simp
  with fz st show ?thesis
    by simp
qed

theorem fuzz_merge_failure_is_caught_witness:
  "map_sum id (\<lambda>r. fr_stats r ''new_units_added'')
     (fst (fuzz (demo_deps demo_merges_failed demo_fuzz_ok [''unit-1'']) ''/bin/target''
             demo_options ''/repro'' 60 demo_state))
   = Inr (Some (PyInt 0))
   \<and> (Warning, ''Merge failed.'')
       \<in> set (logged (snd (fuzz (demo_deps demo_merges_failed demo_fuzz_ok [''unit-1''])
             ''/bin/target'' demo_options ''/repro'' 60 demo_state)))"
proof -
  let ?D = "demo_deps demo_merges_failed demo_fuzz_ok [''unit-1'']"
  let ?w2 = "demo_world\<lparr>fs := (fs demo_world)(''/inputs/new'' \<mapsto> Dir [''unit-1''])\<rparr>"
  note start = demo_start_fuzzer [of demo_merges_failed demo_fuzz_ok "[''unit-1'']"]
  from fuzz_run_returns [OF _ demo_no_timeout_flag, of 60 ?D "''/bin/target''" "''/repro''"
      demo_state]
  obtain cx s1 where run:
    "fuzz_run ?D ''/bin/target'' demo_options ''/repro'' 60 demo_state = (Inr cx, s1)"
    by auto
  have new: "fx_new_corpus_dir cx = Some ''/inputs/new''"
    using fuzz_run_context(1) [OF start run] .
  have w: "world s1 = ?w2"
    using fuzz_run_crash_path(2) [OF start run demo_placeholder(2)] by simp
  have nz: "get_directory_file_count ''/inputs/new'' (world s1) \<noteq> 0"
    unfolding w by (simp add: get_directory_file_count_def)
  let ?two = "minimize_corpus_two_step ?D ''/bin/target'' (fx_non_fuzz_arguments cx)
                (if opt_corpus_dir demo_options \<in> set (opt_fuzz_corpus_dirs demo_options)
                 then opt_fuzz_corpus_dirs demo_options
                 else opt_fuzz_corpus_dirs demo_options @ [opt_corpus_dir demo_options])
                ''/inputs/new'' (fst (create_merge_corpus_dir ?D (world s1))) None
                (get_merge_timeout ?D)
                (s1\<lparr>world := snd (create_merge_corpus_dir ?D (world s1))\<rparr>)"
  have sup: "is_multistep_merge_supported ''/bin/target''
               (world (s1\<lparr>world := snd (create_merge_corpus_dir ?D (world s1))\<rparr>)) = Inr True"
    unfolding w
    by (simp add: is_multistep_merge_supported_def os_path_exists_def demo_world_def
        search_bytes_in_file_def MULTISTEP_MERGE_SUPPORT_TOKEN_def create_merge_corpus_dir_def
        create_temp_fuzzing_dir_def recreate_directory_def Let_def os_path_join_def demo_deps_def)
  have "fst ?two = Inl MergeError"
    unfolding two_step_supported [OF sup]
    by (simp add: minimize_corpus_def Let_def split_beta demo_deps_def demo_merges_failed_def
        demo_run_def)
  then obtain s2 where two: "?two = (Inl MergeError, s2)"
    by (cases ?two) simp
  from fuzz_merge_failure_is_caught [OF run new nz two]
  show ?thesis
    by simp
qed

text \<open>
  Claim C10. The statistics of every result of \<^verbatim>\<open>fuzz\<close> have the key
  \<^verbatim>\<open>timeout_limit\<close>, with the value \<^verbatim>\<open>None\<close> when no argument of the options is a flag
  \<^verbatim>\<open>-timeout=...\<close>; \<^verbatim>\<open>expected_duration\<close> is the integer part of \<open>max_time\<close>,
  \<^verbatim>\<open>actual_duration\<close> is the time of the run of the runner truncated to an integer, and
  \<^verbatim>\<open>fuzzing_time_percent\<close> is the number \<open>100 * actual_duration / max_time\<close>.
\<close>

theorem fuzz_stats_without_timeout_flag:
  assumes start: "start_fuzzer D target_path options reproducers_dir max_time (world s)
                    = (new_corpus_dir, fuzz_result, w2)"
    and ret: "fuzz D target_path options reproducers_dir max_time s = (Inr r, s')"
  shows "fr_stats r ''timeout_limit'' \<noteq> None
       \<and> ((\<forall>a\<in>set (opt_arguments options). \<not> startswith a ''-timeout='')
            \<longrightarrow> fr_stats r ''timeout_limit'' = Some PyNone)
       \<and> fr_stats r ''expected_duration'' = Some (PyInt (py_int max_time))
       \<and> fr_stats r ''actual_duration'' = Some (PyInt (py_int (time_executed fuzz_result)))
       \<and> fr_stats r ''fuzzing_time_percent''
           = Some (PyFloat (100 * real_of_int (py_int (time_executed fuzz_result)) / max_time))"
proof (rule fuzz_result_cases [OF ret])
  fix cx s1 stats'
  assume run: "fuzz_run D target_path options reproducers_dir max_time s = (Inr cx, s1)"
    and r: "r = fuzz_finish D options cx stats'"
    and keeps: "\<And>k. k \<notin> {''new_units_added'', ''initial_edge_coverage'',
            ''initial_feature_coverage'', ''edge_coverage'', ''feature_coverage'',
            ''new_edges'', ''new_features''}
       \<Longrightarrow> stats' k = fx_parsed_stats cx k"
  have k1: "fr_stats r ''timeout_limit'' = fx_parsed_stats cx ''timeout_limit''"
    unfolding r fuzz_finish_fields by (rule keeps) simp
  have k2: "fr_stats r ''expected_duration'' = fx_parsed_stats cx ''expected_duration''"
    unfolding r fuzz_finish_fields by (rule keeps) simp
  have k3: "fr_stats r ''actual_duration'' = fx_parsed_stats cx ''actual_duration''"
    unfolding r fuzz_finish_fields by (rule keeps) simp
  have k4: "fr_stats r ''fuzzing_time_percent'' = fx_parsed_stats cx ''fuzzing_time_percent''"
    unfolding r fuzz_finish_fields by (rule keeps) simp
  note st = fuzz_run_stats [OF start run]
  have "(\<forall>a\<in>set (opt_arguments options). \<not> startswith a ''-timeout='')
            \<longrightarrow> fr_stats r ''timeout_limit'' = Some PyNone"
    unfolding k1 using st(2) no_timeout_flag by blast
  then show ?thesis
    unfolding k1 k2 k3 k4 using st(1,3,4,5) by blast
qed

theorem fuzz_stats_without_timeout_flag_witness:
  "map_sum id (\<lambda>r. map (fr_stats r)
        [''timeout_limit'', ''expected_duration'', ''actual_duration'', ''fuzzing_time_percent''])
     (fst (fuzz (demo_deps demo_merges_failed demo_fuzz_ok []) ''/bin/target''
             demo_options ''/repro'' 60 demo_state))
   = Inr [Some PyNone, Some (PyInt 60), Some (PyInt 30), Some (PyFloat 50)]"
proof -
  let ?D = "demo_deps demo_merges_failed demo_fuzz_ok []"
  let ?w2 = "demo_world\<lparr>fs := (fs demo_world)(''/inputs/new'' \<mapsto> Dir [])\<rparr>"
  note start = demo_start_fuzzer [of demo_merges_failed demo_fuzz_ok "[]"]
  from fuzz_run_returns [OF _ demo_no_timeout_flag, of 60 ?D "''/bin/target''" "''/repro''"
      demo_state]
  obtain cx s1 where run:
    "fuzz_run ?D ''/bin/target'' demo_options ''/repro'' 60 demo_state = (Inr cx, s1)"
    by auto
  have new: "fx_new_corpus_dir cx = Some ''/inputs/new''"
    using fuzz_run_context(1) [OF start run] .
  have "world s1 = ?w2"
    using fuzz_run_crash_path(2) [OF start run demo_placeholder(2)] by simp
  then have none: "get_directory_file_count ''/inputs/new'' (world s1) = 0"
    by (simp add: get_directory_file_count_def)
  from fuzz_returns_without_new_units [OF run new none]
  obtain r s' where ret:
    "fuzz ?D ''/bin/target'' demo_options ''/repro'' 60 demo_state = (Inr r, s')"
    by auto
  have flags: "\<forall>a\<in>set (opt_arguments demo_options). \<not> startswith a ''-timeout=''"
    by (simp add: demo_options_def)
  have t: "py_int (time_executed demo_fuzz_ok) = 30" "py_int 60 = 60"
    by (simp_all add: py_int_def demo_fuzz_ok_def demo_run_def)
  from fuzz_stats_without_timeout_flag [OF start ret] flags
  have "map (fr_stats r)
          [''timeout_limit'', ''expected_duration'', ''actual_duration'', ''fuzzing_time_percent'']
        = [Some PyNone, Some (PyInt 60), Some (PyInt 30), Some (PyFloat 50)]"
    unfolding t by simp
  then show ?thesis
    by (simp add: ret)
qed

text \<open>
  Claim C5, as amended. A fuzz session that returns has created an empty testcase file
  in the reproducers directory, and reports it as the input of its one crash, exactly
  when the output names no crash testcase and the return code is not one of
  \<^verbatim>\<open>NONCRASH_RETURN_CODES\<close>, or the output shows a kernel panic of Trusty (whether or
  not it names a crash testcase). Otherwise the session creates no file, and it reports
  one crash with the testcase that the output names, or no crash when the output names
  none. In particular a return code outside \<^verbatim>\<open>NONCRASH_RETURN_CODES\<close> with no testcase
  in the output gives exactly one crash.
\<close>

theorem fuzz_crash_path:
  assumes start: "start_fuzzer D target_path options reproducers_dir max_time (world s)
                    = (new_corpus_dir, fuzz_result, w2)"
    and ret: "fuzz D target_path options reproducers_dir max_time s = (Inr r, s')"
  shows "(placeholder_needed D target_path fuzz_result \<longrightarrow>
            map crash_input_path (fr_crashes r)
              = [fst (create_empty_testcase_file D reproducers_dir w2)]
          \<and> world (snd (fuzz_run D target_path options reproducers_dir max_time s))
              = snd (create_empty_testcase_file D reproducers_dir w2))
       \<and> (\<not> placeholder_needed D target_path fuzz_result \<longrightarrow>
            map crash_input_path (fr_crashes r)
              = (case get_testcase_path D target_path (splitlines (output_text fuzz_result)) of
                   None \<Rightarrow> [] | Some p \<Rightarrow> if p \<noteq> [] then [p] else [])
          \<and> world (snd (fuzz_run D target_path options reproducers_dir max_time s)) = w2)
       \<and> length (fr_crashes r) \<le> 1"
proof (rule fuzz_result_cases [OF ret])
  fix cx s1 stats'
  assume run: "fuzz_run D target_path options reproducers_dir max_time s = (Inr cx, s1)"
    and r: "r = fuzz_finish D options cx stats'"
  note cp = fuzz_run_crash_path [OF start run]
  have len: "length (fr_crashes r) \<le> 1"
    unfolding r by (simp add: fuzz_finish_def Let_def split: option.splits)
  have a: "placeholder_needed D target_path fuzz_result \<longrightarrow>
            map crash_input_path (fr_crashes r)
              = [fst (create_empty_testcase_file D reproducers_dir w2)]
          \<and> world (snd (fuzz_run D target_path options reproducers_dir max_time s))
              = snd (create_empty_testcase_file D reproducers_dir w2)"
    unfolding r fuzz_finish_fields run
    using cp(1) create_empty_testcase_file_path(1) [of D reproducers_dir w2]
    by simp
  have b: "\<not> placeholder_needed D target_path fuzz_result \<longrightarrow>
            map crash_input_path (fr_crashes r)
              = (case get_testcase_path D target_path (splitlines (output_text fuzz_result)) of
                   None \<Rightarrow> [] | Some p \<Rightarrow> if p \<noteq> [] then [p] else [])
          \<and> world (snd (fuzz_run D target_path options reproducers_dir max_time s)) = w2"
    unfolding r fuzz_finish_fields run
    using cp(2) by simp
  from a b len show ?thesis
    by blast
qed

theorem fuzz_crash_path_witness:
  "map_sum id (\<lambda>r. map crash_input_path (fr_crashes r))
     (fst (fuzz (demo_deps demo_merges_failed demo_fuzz_startup_crash []) ''/bin/target''
             demo_options ''/repro'' 60 demo_state))
   = Inr [''/repro/tmp00000000'']"
proof -
  let ?D = "demo_deps demo_merges_failed demo_fuzz_startup_crash []"
  let ?w2 = "demo_world\<lparr>fs := (fs demo_world)(''/inputs/new'' \<mapsto> Dir [])\<rparr>"
  note start = demo_start_fuzzer [of demo_merges_failed demo_fuzz_startup_crash "[]"]
  from fuzz_run_returns [OF _ demo_no_timeout_flag, of 60 ?D "''/bin/target''" "''/repro''"
      demo_state]
  obtain cx s1 where run:
    "fuzz_run ?D ''/bin/target'' demo_options ''/repro'' 60 demo_state = (Inr cx, s1)"
    by auto
  have new: "fx_new_corpus_dir cx = Some ''/inputs/new''"
    using fuzz_run_context(1) [OF start run] .
  have "world s1 = snd (create_empty_testcase_file ?D ''/repro'' ?w2)"
    using fuzz_run_crash_path(1) [OF start run demo_placeholder(1)] by simp
  then have none: "get_directory_file_count ''/inputs/new'' (world s1) = 0"
    by (simp add: create_empty_testcase_file_def Let_def get_directory_file_count_def)
  from fuzz_returns_without_new_units [OF run new none]
  obtain r s' where ret:
    "fuzz ?D ''/bin/target'' demo_options ''/repro'' 60 demo_state = (Inr r, s')"
    by auto
  from fuzz_crash_path [OF start ret] demo_placeholder(1)
  have "map crash_input_path (fr_crashes r) = [fst (create_empty_testcase_file ?D ''/repro'' ?w2)]"
    by blast
  also have "fst (create_empty_testcase_file ?D ''/repro'' ?w2) = ''/repro/tmp00000000''"
    by (simp add: create_empty_testcase_file_def Let_def os_path_join_def demo_deps_def)
  finally show ?thesis
    by (simp add: ret)
qed

text \<open>
  Claim C5 as stated fails: the output names the crash testcase \<^verbatim>\<open>/repro/crash-1\<close> and
  shows a kernel panic of Trusty, and the crash that is reported has the empty testcase
  file as its input, not the testcase of the output.
\<close>

theorem fuzz_parsed_path_overridden_by_panic:
  "get_testcase_path (demo_deps demo_merges_failed demo_fuzz_panic []) ''/bin/target''
     (splitlines (output_text demo_fuzz_panic)) = Some ''/repro/crash-1''
   \<and> map_sum id (map crash_input_path \<circ> fr_crashes)
       (fst (fuzz (demo_deps demo_merges_failed demo_fuzz_panic []) ''/bin/target''
               demo_options ''/repro'' 60 demo_state))
     = Inr [''/repro/tmp00000000'']"
proof -
  let ?D = "demo_deps demo_merges_failed demo_fuzz_panic []"
  let ?w2 = "demo_world\<lparr>fs := (fs demo_world)(''/inputs/new'' \<mapsto> Dir [])\<rparr>"
  have lines: "splitlines (output_text demo_fuzz_panic)
                 = [''artifact=/repro/crash-1'', ''panic notifier - trusty version'']"
    by (simp add: demo_fuzz_panic_def demo_run_def splitlines_def is_linebreak_def)
  have parsed: "get_testcase_path ?D ''/bin/target'' (splitlines (output_text demo_fuzz_panic))
                  = Some ''/repro/crash-1''"
    unfolding lines by (simp add: demo_deps_def)
  have panic: "placeholder_needed ?D ''/bin/target'' demo_fuzz_panic"
    unfolding placeholder_needed_def lines
    by (simp add: fuzz_output_contains_trusty_kernel_panic_def)
  note start = demo_start_fuzzer [of demo_merges_failed demo_fuzz_panic "[]"]
  from fuzz_run_returns [OF _ demo_no_timeout_flag, of 60 ?D "''/bin/target''" "''/repro''"
      demo_state]
  obtain cx s1 where run:
    "fuzz_run ?D ''/bin/target'' demo_options ''/repro'' 60 demo_state = (Inr cx, s1)"
    by auto
  have new: "fx_new_corpus_dir cx = Some ''/inputs/new''"
    using fuzz_run_context(1) [OF start run] .
  note cp = fuzz_run_crash_path(1) [OF start run panic]
  from cp have none: "get_directory_file_count ''/inputs/new'' (world s1) = 0"
    by (simp add: create_empty_testcase_file_def Let_def get_directory_file_count_def)
  have path: "fx_crash_testcase_file_path cx = Some ''/repro/tmp00000000''"
    using cp by (simp add: create_empty_testcase_file_def Let_def os_path_join_def demo_deps_def)
  have "fst (fuzz ?D ''/bin/target'' demo_options ''/repro'' 60 demo_state)
          = Inr (fuzz_finish ?D demo_options cx
                   ((fx_parsed_stats cx)(''new_units_added'' \<mapsto> PyInt 0)))"
    using new none by (simp add: fuzz_def run merge_new_units_def)
  with path parsed show ?thesis
    by (simp add: fuzz_finish_fields)
qed

subsection \<open>Preparing a session\<close>

lemma fold_extra_env_lookup:
  "fold (\<lambda>(env_var_name, v) env.
           if env env_var_name = None then env(env_var_name \<mapsto> v) else env) items env name
     = (case env name of Some v \<Rightarrow> Some v | None \<Rightarrow> map_of items name)"
proof (induction items arbitrary: env)
  case Nil
  then show ?case by (simp split: option.splits)
next
  case (Cons item items)
  obtain k v where item: "item = (k, v)" by (cases item)
  show ?case
    unfolding item by (simp add: Cons.IH split: option.splits)
qed

lemma update_extra_env_lookup:
  "update_extra_env extra_env strategy_env name
     = (case strategy_env name of
          Some v \<Rightarrow> Some v
        | None \<Rightarrow> (case extra_env of None \<Rightarrow> None | Some items \<Rightarrow> map_of items name))"
  by (cases extra_env) (simp_all add: update_extra_env_def fold_extra_env_lookup
      split: option.splits)

lemma prepare_opt_extra_env:
  assumes pool: "(if do_strategies then generate_weighted_strategy_pool D (world s)
                  else ([], world s)) = (strategy_pool, w1)"
    and pick: "pick_strategies D strategy_pool target_path corpus_dir
                 (get_arguments D target_path (world s)) w1 = (info, w2)"
  shows "opt_extra_env (fst (prepare D do_strategies corpus_dir target_path s))
           = update_extra_env (get_extra_env D target_path (world s)) (si_extra_env info)"
  unfolding prepare_def Let_def pool
  by (simp add: pick split_beta)

lemma demo_prepare_pick:
  "(if True then generate_weighted_strategy_pool (demo_deps demo_merges_failed demo_fuzz_ok [])
                   (world demo_state)
    else ([], world demo_state)) = ([''corpus_subset''], demo_world)"
  "pick_strategies (demo_deps demo_merges_failed demo_fuzz_ok []) [''corpus_subset'']
     ''/bin/target'' ''/corpus''
     (get_arguments (demo_deps demo_merges_failed demo_fuzz_ok []) ''/bin/target''
        (world demo_state)) demo_world
   = (\<lparr>si_fuzzing_strategies = [''value_profile''],
        si_arguments = [''-use_value_profile=1''],
        si_additional_corpus_dirs = [],
        si_extra_env = [''ASAN_OPTIONS'' \<mapsto> ''strategy''],
        si_is_mutations_run = False\<rparr>, demo_world)"
  by (simp_all add: demo_deps_def demo_state_def)

text \<open>
  Claim C9, as amended. In the options that \<^verbatim>\<open>prepare\<close> returns, a variable that the
  strategies have set has the value the strategies gave it, also when the extra
  environment of the target sets the same variable; a variable that the strategies have
  not set has the value of the extra environment of the target, if that sets it.
\<close>

theorem prepare_extra_env:
  assumes pool: "(if do_strategies then generate_weighted_strategy_pool D (world s)
                  else ([], world s)) = (strategy_pool, w1)"
    and pick: "pick_strategies D strategy_pool target_path corpus_dir
                 (get_arguments D target_path (world s)) w1 = (info, w2)"
  shows "opt_extra_env (fst (prepare D do_strategies corpus_dir target_path s)) name
           = (case si_extra_env info name of
                Some v \<Rightarrow> Some v
              | None \<Rightarrow> (case get_extra_env D target_path (world s) of
                           None \<Rightarrow> None
                         | Some items \<Rightarrow> map_of items name))"
  unfolding prepare_opt_extra_env [OF pool pick] by (rule update_extra_env_lookup)

theorem prepare_extra_env_witness:
  "opt_extra_env (fst (prepare (demo_deps demo_merges_failed demo_fuzz_ok []) True
       ''/corpus'' ''/bin/target'' demo_state)) ''ASAN_OPTIONS'' = Some ''strategy''
   \<and> opt_extra_env (fst (prepare (demo_deps demo_merges_failed demo_fuzz_ok []) True
       ''/corpus'' ''/bin/target'' demo_state)) ''FOO'' = Some ''bar''"
  using prepare_extra_env [OF demo_prepare_pick, of "''ASAN_OPTIONS''"]
    prepare_extra_env [OF demo_prepare_pick, of "''FOO''"]
  by (simp add: demo_deps_def)

text \<open>
  Claim C9 as stated fails: the extra environment of the target and the strategies both
  set \<^verbatim>\<open>ASAN_OPTIONS\<close>, and the options have the value of the strategies.
\<close>

theorem prepare_strategy_env_wins:
  "get_extra_env (demo_deps demo_merges_failed demo_fuzz_ok []) ''/bin/target''
     (world demo_state) = Some [(''ASAN_OPTIONS'', ''caller''), (''FOO'', ''bar'')]
   \<and> si_extra_env (fst (pick_strategies (demo_deps demo_merges_failed demo_fuzz_ok [])
       [''corpus_subset''] ''/bin/target'' ''/corpus''
       (get_arguments (demo_deps demo_merges_failed demo_fuzz_ok []) ''/bin/target''
          (world demo_state)) demo_world)) ''ASAN_OPTIONS'' = Some ''strategy''
   \<and> opt_extra_env (fst (prepare (demo_deps demo_merges_failed demo_fuzz_ok []) True
       ''/corpus'' ''/bin/target'' demo_state)) ''ASAN_OPTIONS'' = Some ''strategy''"
  unfolding prepare_opt_extra_env [OF demo_prepare_pick]
  by (simp add: demo_deps_def update_extra_env_def)

end
